theory Spec2Isabelle
  imports Main "HOL-Library.Word"
begin

section \<open>Data model\<close>

subsection \<open>JSON values and HTTP responses\<close>

text \<open>
  The handlers answer with \<^verbatim>\<open>c.json(obj, status)\<close>. A JavaScript object is an
  association list of property names and values, in insertion order; a \<^verbatim>\<open>Date\<close>
  is kept as its millisecond timestamp.
\<close>

datatype json =
    JNull
  | JBool bool
  | JNum int
  | JStr string
  | JDate int
  | JObj "(string \<times> json) list"

record Response =
  status :: nat
  body :: json

text \<open>\<^verbatim>\<open>c.json(obj, status)\<close>; the status defaults to 200.\<close>

definition c_json :: "json \<Rightarrow> nat \<Rightarrow> Response" where
  "c_json obj st = \<lparr>status = st, body = obj\<rparr>"

text \<open>The object literal \<^verbatim>\<open>{ error: msg }\<close>.\<close>

definition error_obj :: "string \<Rightarrow> json" where
  "error_obj msg = JObj [(''error'', JStr msg)]"

text \<open>All property names of a JSON value, at any depth.\<close>

primrec json_keys :: "json \<Rightarrow> string list" where
  "json_keys JNull = []"
| "json_keys (JBool b) = []"
| "json_keys (JNum n) = []"
| "json_keys (JStr s) = []"
| "json_keys (JDate t) = []"
| "json_keys (JObj fs) = concat (map (\<lambda>kv. fst kv # snd kv) (map (map_prod id json_keys) fs))"

text \<open>Property lookup \<^verbatim>\<open>obj.name\<close>; \<^verbatim>\<open>undefined\<close> is \<open>None\<close>.\<close>

definition get_prop :: "json \<Rightarrow> string \<Rightarrow> json option" where
  "get_prop j name = (case j of JObj fs \<Rightarrow> map_of fs name | _ \<Rightarrow> None)"

subsection \<open>Rows of the tables \<^verbatim>\<open>users\<close> and \<^verbatim>\<open>api_keys\<close>\<close>

text \<open>
  \<^verbatim>\<open>User = typeof users.$inferSelect\<close> (schema of the users table). The columns keep
  their names behind the prefix \<open>u_\<close>, since both tables have \<^verbatim>\<open>id\<close>,
  \<^verbatim>\<open>isActive\<close>, \<^verbatim>\<open>createdAt\<close> and \<^verbatim>\<open>updatedAt\<close>. A nullable column is an
  option; a timestamp is milliseconds since the epoch.
\<close>

record User =
  u_id :: string
  u_email :: string
  u_password :: string
  u_firstName :: "string option"
  u_lastName :: "string option"
  u_phone :: "string option"
  u_role :: string
  u_isActive :: bool
  u_emailVerified :: bool
  u_lastLoginAt :: "int option"
  u_createdAt :: int
  u_updatedAt :: int

text \<open>\<^verbatim>\<open>ApiKey = typeof apiKeys.$inferSelect\<close> (src/db/schema/apiKeys.ts), prefix \<open>k_\<close>.\<close>

record ApiKey =
  k_id :: string
  k_name :: string
  k_key :: string
  k_description :: "string option"
  k_createdBy :: string
  k_isActive :: bool
  k_lastUsedAt :: "int option"
  k_expiresAt :: "int option"
  k_createdAt :: int
  k_updatedAt :: int

definition json_opt_str :: "string option \<Rightarrow> json" where
  "json_opt_str v = (case v of None \<Rightarrow> JNull | Some s \<Rightarrow> JStr s)"

definition json_opt_date :: "int option \<Rightarrow> json" where
  "json_opt_date v = (case v of None \<Rightarrow> JNull | Some t \<Rightarrow> JDate t)"

text \<open>A selected row as the JavaScript object drizzle returns: one property per column.\<close>

definition User_props :: "User \<Rightarrow> (string \<times> json) list" where
  "User_props u =
     [(''id'', JStr (u_id u)),
      (''email'', JStr (u_email u)),
      (''password'', JStr (u_password u)),
      (''firstName'', json_opt_str (u_firstName u)),
      (''lastName'', json_opt_str (u_lastName u)),
      (''phone'', json_opt_str (u_phone u)),
      (''role'', JStr (u_role u)),
      (''isActive'', JBool (u_isActive u)),
      (''emailVerified'', JBool (u_emailVerified u)),
      (''lastLoginAt'', json_opt_date (u_lastLoginAt u)),
      (''createdAt'', JDate (u_createdAt u)),
      (''updatedAt'', JDate (u_updatedAt u))]"

definition ApiKey_props :: "ApiKey \<Rightarrow> (string \<times> json) list" where
  "ApiKey_props k =
     [(''id'', JStr (k_id k)),
      (''name'', JStr (k_name k)),
      (''key'', JStr (k_key k)),
      (''description'', json_opt_str (k_description k)),
      (''createdBy'', JStr (k_createdBy k)),
      (''isActive'', JBool (k_isActive k)),
      (''lastUsedAt'', json_opt_date (k_lastUsedAt k)),
      (''expiresAt'', json_opt_date (k_expiresAt k)),
      (''createdAt'', JDate (k_createdAt k)),
      (''updatedAt'', JDate (k_updatedAt k))]"

text \<open>
  The rest pattern \<^verbatim>\<open>const { password: _, ...userWithoutPassword } = user\<close>: every
  property of the object but \<^verbatim>\<open>password\<close>.
\<close>

definition omit :: "string \<Rightarrow> (string \<times> json) list \<Rightarrow> (string \<times> json) list" where
  "omit name fs = filter (\<lambda>kv. fst kv \<noteq> name) fs"

subsection \<open>The store\<close>

text \<open>
  Anything a call can throw. The store is an external collaborator: each awaited query
  either returns or throws. \<open>faults\<close> is the environment's schedule for the coming
  store calls, one flag a call (\<open>True\<close>: that call throws); past the end of the schedule
  every call returns.
\<close>

datatype error = StoreUnreachable | JsonWebTokenError | TokenExpiredError | HashingError | TypeError

record db =
  users :: "User list"
  apiKeys :: "ApiKey list"
  faults :: "bool list"

text \<open>One awaited drizzle query: consumes one flag of the schedule, throws or runs.\<close>

definition store_call :: "(db \<Rightarrow> 'a \<times> db) \<Rightarrow> db \<Rightarrow> (error + 'a) \<times> db" where
  "store_call q d =
     (case faults d of
        [] \<Rightarrow> (case q d of (r, d') \<Rightarrow> (Inr r, d'))
      | b # bs \<Rightarrow>
          (if b then (Inl StoreUnreachable, d\<lparr>faults := bs\<rparr>)
           else (case q (d\<lparr>faults := bs\<rparr>) of (r, d') \<Rightarrow> (Inr r, d'))))"

text \<open>\<^verbatim>\<open>db.select().from(users).where(p).limit(n)\<close>\<close>

definition select_users :: "(User \<Rightarrow> bool) \<Rightarrow> nat \<Rightarrow> db \<Rightarrow> User list \<times> db" where
  "select_users p n d = (take n (filter p (users d)), d)"

text \<open>\<^verbatim>\<open>db.select().from(apiKeys).where(p)\<close>\<close>

definition select_apiKeys :: "(ApiKey \<Rightarrow> bool) \<Rightarrow> db \<Rightarrow> ApiKey list \<times> db" where
  "select_apiKeys p d = (filter p (apiKeys d), d)"

text \<open>
  \<^verbatim>\<open>db.update(apiKeys).set(s).where(p).returning()\<close>: every row that satisfies \<open>p\<close>
  is replaced by \<open>s\<close> of it; the updated rows are returned.
\<close>

definition update_apiKeys ::
  "(ApiKey \<Rightarrow> ApiKey) \<Rightarrow> (ApiKey \<Rightarrow> bool) \<Rightarrow> db \<Rightarrow> ApiKey list \<times> db" where
  "update_apiKeys s p d =
     (map s (filter p (apiKeys d)),
      d\<lparr>apiKeys := map (\<lambda>k. if p k then s k else k) (apiKeys d)\<rparr>)"

definition update_users ::
  "(User \<Rightarrow> User) \<Rightarrow> (User \<Rightarrow> bool) \<Rightarrow> db \<Rightarrow> User list \<times> db" where
  "update_users s p d =
     (map s (filter p (users d)),
      d\<lparr>users := map (\<lambda>u. if p u then s u else u) (users d)\<rparr>)"

text \<open>\<^verbatim>\<open>db.insert(users).values(v).returning()\<close>, \<open>v\<close> the row with the defaults filled in.\<close>

definition insert_users :: "User \<Rightarrow> db \<Rightarrow> User list \<times> db" where
  "insert_users v d = ([v], d\<lparr>users := users d @ [v]\<rparr>)"

subsection \<open>Requests, the context, outcomes of a pipeline stage\<close>

text \<open>
  What the handlers read of a request: \<^verbatim>\<open>c.req.header(name)\<close>,
  \<^verbatim>\<open>c.req.query(name)\<close>, \<^verbatim>\<open>c.req.param(name)\<close> and the JSON body.
\<close>

record Request =
  header :: "string \<Rightarrow> string option"
  query :: "string \<Rightarrow> string option"
  param :: "string \<Rightarrow> string"
  json_body :: json

text \<open>\<^verbatim>\<open>AuthContext['user']\<close> (src/middleware/auth.ts), prefix \<open>au_\<close>.\<close>

record AuthUser =
  au_id :: string
  au_email :: string
  au_role :: string

text \<open>
  The request-scoped context \<^verbatim>\<open>c\<close>: the request and the two variables the gates set,
  \<^verbatim>\<open>c.set('user', ...)\<close> and \<^verbatim>\<open>c.set('apiKey', ...)\<close>. An unset variable is \<open>None\<close>.
\<close>

record Context =
  req :: Request
  var_user :: "AuthUser option"
  var_apiKey :: "ApiKey option"

text \<open>
  A stage either answers (\<^verbatim>\<open>return c.json(...)\<close>, the pipeline stops) or reaches
  \<^verbatim>\<open>await next()\<close> with the context as it then is.
\<close>

datatype outcome = Respond Response | Next Context

text \<open>
  What a later stage can observe of the API key gate: the response, or the key record set
  in the context.
\<close>

definition gate_result :: "outcome \<Rightarrow> Response + ApiKey option" where
  "gate_result out = (case out of Respond r \<Rightarrow> Inl r | Next c \<Rightarrow> Inr (var_apiKey c))"

subsection \<open>JavaScript truthiness of \<^verbatim>\<open>string | undefined\<close>\<close>

text \<open>\<^verbatim>\<open>undefined\<close>, \<^verbatim>\<open>null\<close> and the empty string are falsy.\<close>

definition truthy :: "string option \<Rightarrow> bool" where
  "truthy v = (case v of None \<Rightarrow> False | Some s \<Rightarrow> s \<noteq> [])"

text \<open>\<^verbatim>\<open>a || b\<close>\<close>

definition js_or :: "string option \<Rightarrow> string option \<Rightarrow> string option" where
  "js_or a b = (if truthy a then a else b)"

section \<open>Session Auth Gate and Role Gate (src/middleware/auth.ts)\<close>

text \<open>The claims of a verified token, as \<^verbatim>\<open>authMiddleware\<close> reads them.\<close>

record TokenPayload =
  userId :: string
  email :: string
  role :: string

text \<open>
  \<^verbatim>\<open>AuthService\<close> (lib/auth) is imported by the sources and is not among them, so its
  operations are parameters: any implementation with these signatures.
  \<^verbatim>\<open>verifyToken\<close> throws on an invalid or expired token; hashing may throw.
\<close>

record AuthService =
  extractTokenFromHeader :: "string option \<Rightarrow> string option"
  verifyToken :: "string \<Rightarrow> error + TokenPayload"
  hashPassword :: "string \<Rightarrow> error + string"
  comparePassword :: "string \<Rightarrow> string \<Rightarrow> error + bool"
  generateToken :: "User \<Rightarrow> string"

text \<open>The body of the \<^verbatim>\<open>try\<close> block of \<^verbatim>\<open>authMiddleware\<close>; \<open>Inl\<close> is a throw.\<close>

definition authMiddleware_try :: "AuthService \<Rightarrow> Context \<Rightarrow> db \<Rightarrow> (error + outcome) \<times> db" where
  "authMiddleware_try svc c d =
     (let authHeader = header (req c) ''Authorization'';
          token = extractTokenFromHeader svc authHeader
      in if \<not> truthy token
         then (Inr (Respond (c_json (error_obj ''Authorization token required'') 401)), d)
         else
           (case verifyToken svc (the token) of
              Inl e \<Rightarrow> (Inl e, d)
            | Inr payload \<Rightarrow>
                (case store_call (select_users (\<lambda>u. u_id u = userId payload) 1) d of
                   (Inl e, d') \<Rightarrow> (Inl e, d')
                 | (Inr user, d') \<Rightarrow>
                     (if user = [] \<or> \<not> u_isActive (hd user)
                      then (Inr (Respond (c_json (error_obj ''User not found or inactive'') 401)), d')
                      else (Inr (Next (c\<lparr>var_user :=
                                  Some \<lparr>au_id = userId payload,
                                        au_email = email payload,
                                        au_role = role payload\<rparr>\<rparr>)), d')))))"

text \<open>\<^verbatim>\<open>authMiddleware\<close>: the \<^verbatim>\<open>catch\<close> answers 401 whatever was thrown.\<close>

definition authMiddleware :: "AuthService \<Rightarrow> Context \<Rightarrow> db \<Rightarrow> outcome \<times> db" where
  "authMiddleware svc c d =
     (case authMiddleware_try svc c d of
        (Inl e, d') \<Rightarrow> (Respond (c_json (error_obj ''Invalid or expired token'') 401), d')
      | (Inr out, d') \<Rightarrow> (out, d'))"

text \<open>\<^verbatim>\<open>requireRole(roles)\<close>; \<^verbatim>\<open>roles.includes(user.role)\<close> is list membership.\<close>

definition requireRole :: "string list \<Rightarrow> Context \<Rightarrow> outcome" where
  "requireRole roles c =
     (case var_user c of
        None \<Rightarrow> Respond (c_json (error_obj ''Authentication required'') 401)
      | Some user \<Rightarrow>
          (if au_role user \<notin> set roles
           then Respond (c_json (error_obj ''Insufficient permissions'') 403)
           else Next c))"

definition requireAdmin :: "Context \<Rightarrow> outcome" where
  "requireAdmin = requireRole [''admin'']"

definition requireStaff :: "Context \<Rightarrow> outcome" where
  "requireStaff = requireRole [''admin'', ''staff'']"

section \<open>API key gate (src/middleware/apiKey.ts)\<close>

text \<open>
  The body of the \<^verbatim>\<open>try\<close> block of \<^verbatim>\<open>apiKeyMiddleware\<close>. The two readings of the
  clock are parameters: \<open>now\<close> is the \<^verbatim>\<open>new Date()\<close> of the expiry test, \<open>used\<close> the
  later one written to \<^verbatim>\<open>lastUsedAt\<close>. \<^verbatim>\<open>const [keyRecord] = ...\<close> takes the first
  selected row; a \<^verbatim>\<open>Date\<close> is truthy, \<^verbatim>\<open>null\<close> is not.
\<close>

definition apiKeyMiddleware_try :: "int \<Rightarrow> int \<Rightarrow> Context \<Rightarrow> db \<Rightarrow> (error + outcome) \<times> db" where
  "apiKeyMiddleware_try now used c d =
     (let apiKey = js_or (header (req c) ''X-API-Key'') (query (req c) ''api_key'')
      in if \<not> truthy apiKey
         then (Inr (Respond (c_json (error_obj ''API key is required'') 401)), d)
         else
           (case store_call
                   (select_apiKeys (\<lambda>k. k_key k = the apiKey \<and> k_isActive k = True)) d of
              (Inl e, d1) \<Rightarrow> (Inl e, d1)
            | (Inr rows, d1) \<Rightarrow>
                (case rows of
                   [] \<Rightarrow> (Inr (Respond (c_json (error_obj ''Invalid API key'') 401)), d1)
                 | keyRecord # _ \<Rightarrow>
                     (if (case k_expiresAt keyRecord of None \<Rightarrow> False | Some e \<Rightarrow> now > e)
                      then (Inr (Respond (c_json (error_obj ''API key has expired'') 401)), d1)
                      else
                        (case store_call
                                (update_apiKeys (\<lambda>k. k\<lparr>k_lastUsedAt := Some used\<rparr>)
                                   (\<lambda>k. k_id k = k_id keyRecord)) d1 of
                           (Inl e, d2) \<Rightarrow> (Inl e, d2)
                         | (Inr _, d2) \<Rightarrow>
                             (Inr (Next (c\<lparr>var_apiKey := Some keyRecord\<rparr>)), d2))))))"

text \<open>\<^verbatim>\<open>apiKeyMiddleware\<close>: the \<^verbatim>\<open>catch\<close> logs the error and answers 500.\<close>

definition apiKeyMiddleware :: "int \<Rightarrow> int \<Rightarrow> Context \<Rightarrow> db \<Rightarrow> outcome \<times> db" where
  "apiKeyMiddleware now used c d =
     (case apiKeyMiddleware_try now used c d of
        (Inl e, d') \<Rightarrow> (Respond (c_json (error_obj ''Authentication failed'') 500), d')
      | (Inr out, d') \<Rightarrow> (out, d'))"

section \<open>Request validation\<close>

text \<open>
  \<^verbatim>\<open>zValidator('json', schema)\<close>: zod parses the body; a failed parse is answered with
  400 and the issues, a parsed value is what \<^verbatim>\<open>c.req.valid('json')\<close> returns. The parse
  itself is zod's and a parameter here: \<open>Inl\<close> the issues, \<open>Inr\<close> the typed value.
\<close>

definition zValidator :: "(json \<Rightarrow> json + 'a) \<Rightarrow> Context \<Rightarrow> Response + 'a" where
  "zValidator schema c =
     (case schema (json_body (req c)) of
        Inl issues \<Rightarrow> Inl (c_json (JObj [(''success'', JBool False), (''error'', issues)]) 400)
      | Inr v \<Rightarrow> Inr v)"

section \<open>API key routes (src/routes/apiKeys.ts)\<close>

text \<open>\<^verbatim>\<open>Buffer.toString('hex')\<close>: two lower-case hexadecimal digits a byte.\<close>

definition hex_digit :: "nat \<Rightarrow> char" where
  "hex_digit n = ''0123456789abcdef'' ! n"

definition hex_byte :: "8 word \<Rightarrow> string" where
  "hex_byte b = [hex_digit (unat b div 16), hex_digit (unat b mod 16)]"

definition toString_hex :: "8 word list \<Rightarrow> string" where
  "toString_hex bs = concat (map hex_byte bs)"

text \<open>
  \<^verbatim>\<open>randomBytes(n)\<close> of Node's crypto module (an external library): \<open>n\<close> bytes
  drawn from the operating system's cryptographic generator. The generator is the stream
  of bytes it hands out from this call on; the call takes the first \<open>n\<close> of them.
\<close>

type_synonym csprng = "nat \<Rightarrow> 8 word"

definition randomBytes :: "nat \<Rightarrow> csprng \<Rightarrow> 8 word list" where
  "randomBytes n g = map g [0..<n]"

text \<open>
  \<^verbatim>\<open>generateApiKey()\<close>. It has no parameter and reads nothing but the generator.
\<close>

definition generateApiKey :: "csprng \<Rightarrow> string" where
  "generateApiKey g =
     (let prefix = ''zk_'';
          randomPart = toString_hex (randomBytes 32 g)
      in prefix @ randomPart)"

text \<open>
  \<^verbatim>\<open>CreateApiKeyInput = z.infer<typeof createApiKeySchema>\<close>: the schema picks
  \<^verbatim>\<open>name\<close>, \<^verbatim>\<open>description\<close> and \<^verbatim>\<open>expiresAt\<close> (an ISO date-time string).
\<close>

record CreateApiKeyInput =
  ck_name :: string
  ck_description :: "string option"
  ck_expiresAt :: "string option"

text \<open>
  The column defaults of the api_keys table for an inserted row: a generated \<^verbatim>\<open>id\<close>,
  active, never used, no description, no expiry, both timestamps the store's clock.
  \<^verbatim>\<open>name\<close>, \<^verbatim>\<open>key\<close> and \<^verbatim>\<open>createdBy\<close> have no default: \<^verbatim>\<open>values\<close> gives them.
\<close>

definition apiKeys_defaults :: "string \<Rightarrow> int \<Rightarrow> ApiKey" where
  "apiKeys_defaults newId now =
     \<lparr>k_id = newId, k_name = [], k_key = [], k_description = None, k_createdBy = [],
      k_isActive = True, k_lastUsedAt = None, k_expiresAt = None,
      k_createdAt = now, k_updatedAt = now\<rparr>"

text \<open>\<^verbatim>\<open>db.insert(apiKeys).values(v).returning()\<close>, \<open>v\<close> the row with the defaults filled in.\<close>

definition insert_apiKeys :: "ApiKey \<Rightarrow> db \<Rightarrow> ApiKey list \<times> db" where
  "insert_apiKeys v d = ([v], d\<lparr>apiKeys := apiKeys d @ [v]\<rparr>)"

text \<open>
  The handler of \<^verbatim>\<open>POST /\<close> (create). The object literal is evaluated in order: the
  validated data, \<^verbatim>\<open>key: generateApiKey()\<close>, \<^verbatim>\<open>createdBy: user.id\<close> (a TypeError when no
  identity is set), \<^verbatim>\<open>expiresAt\<close> parsed by \<^verbatim>\<open>new Date(...)\<close> (\<open>parseDate\<close>) or
  \<^verbatim>\<open>null\<close>. \<open>g\<close> is the generator at the call of \<^verbatim>\<open>generateApiKey\<close>, \<open>newId\<close> and
  \<open>now\<close> are the id and clock of the store.
\<close>

definition create_try ::
  "csprng \<Rightarrow> (string \<Rightarrow> int) \<Rightarrow> string \<Rightarrow> int \<Rightarrow> CreateApiKeyInput \<Rightarrow> Context \<Rightarrow> db
     \<Rightarrow> (error + Response) \<times> db" where
  "create_try g parseDate newId now data c d =
     (let key = generateApiKey g
      in case var_user c of
           None \<Rightarrow> (Inl TypeError, d)
         | Some user \<Rightarrow>
             (let expiresAt = (if truthy (ck_expiresAt data)
                               then Some (parseDate (the (ck_expiresAt data))) else None);
                  newApiKey = (apiKeys_defaults newId now)
                     \<lparr>k_name := ck_name data,
                      k_description := ck_description data,
                      k_key := key,
                      k_createdBy := au_id user,
                      k_expiresAt := expiresAt\<rparr>
              in case store_call (insert_apiKeys newApiKey) d of
                   (Inl e, d') \<Rightarrow> (Inl e, d')
                 | (Inr rows, d') \<Rightarrow>
                     (case rows of
                        [] \<Rightarrow> (Inr (c_json (JObj []) 201), d')
                      | created # _ \<Rightarrow>
                          (Inr (c_json (JObj [(''data'', JObj (ApiKey_props created))]) 201), d'))))"

text \<open>\<^verbatim>\<open>apiKeysRouter.post('/', zValidator('json', createApiKeySchema), ...)\<close>\<close>

definition create ::
  "csprng \<Rightarrow> (json \<Rightarrow> json + CreateApiKeyInput) \<Rightarrow> (string \<Rightarrow> int) \<Rightarrow> string \<Rightarrow> int
     \<Rightarrow> Context \<Rightarrow> db \<Rightarrow> Response \<times> db" where
  "create g createApiKeySchema parseDate newId now c d =
     (case zValidator createApiKeySchema c of
        Inl r \<Rightarrow> (r, d)
      | Inr data \<Rightarrow>
          (case create_try g parseDate newId now data c d of
             (Inl e, d') \<Rightarrow> (c_json (error_obj ''Failed to create API key'') 500, d')
           | (Inr r, d') \<Rightarrow> (r, d')))"

text \<open>
  The handler of \<^verbatim>\<open>POST /:id/regenerate\<close>: \<open>g\<close> is the generator at its call of
  \<^verbatim>\<open>generateApiKey\<close>, \<open>now\<close> its \<^verbatim>\<open>new Date()\<close>.
\<close>

definition regenerate_try :: "csprng \<Rightarrow> int \<Rightarrow> Context \<Rightarrow> db \<Rightarrow> (error + Response) \<times> db" where
  "regenerate_try g now c d =
     (let id = param (req c) ''id''
      in case store_call
                (update_apiKeys (\<lambda>k. k\<lparr>k_key := generateApiKey g, k_updatedAt := now\<rparr>)
                   (\<lambda>k. k_id k = id)) d of
           (Inl e, d') \<Rightarrow> (Inl e, d')
         | (Inr rows, d') \<Rightarrow>
             (case rows of
                [] \<Rightarrow> (Inr (c_json (error_obj ''API key not found'') 404), d')
              | updated # _ \<Rightarrow>
                  (Inr (c_json (JObj [(''data'', JObj (ApiKey_props updated))]) 200), d')))"

definition regenerate :: "csprng \<Rightarrow> int \<Rightarrow> Context \<Rightarrow> db \<Rightarrow> Response \<times> db" where
  "regenerate g now c d =
     (case regenerate_try g now c d of
        (Inl e, d') \<Rightarrow> (c_json (error_obj ''Failed to regenerate API key'') 500, d')
      | (Inr r, d') \<Rightarrow> (r, d'))"

section \<open>Auth routes: register, login, me\<close>

text \<open>
  \<^verbatim>\<open>RegisterInput = z.infer<typeof registerSchema>\<close>: the schema picks \<^verbatim>\<open>email\<close>,
  \<^verbatim>\<open>password\<close>, \<^verbatim>\<open>firstName\<close>, \<^verbatim>\<open>lastName\<close> and \<^verbatim>\<open>phone\<close> of the insert schema,
  and nothing else. \<^verbatim>\<open>LoginInput\<close> has \<^verbatim>\<open>email\<close> and \<^verbatim>\<open>password\<close>.
\<close>

record RegisterInput =
  reg_email :: string
  reg_password :: string
  reg_firstName :: "string option"
  reg_lastName :: "string option"
  reg_phone :: "string option"

record LoginInput =
  login_email :: string
  login_password :: string

text \<open>
  The column defaults of the users table for an inserted row: a generated \<^verbatim>\<open>id\<close>,
  role \<^verbatim>\<open>customer\<close>, active, e-mail not verified, no last login, both timestamps the
  store's clock. \<^verbatim>\<open>email\<close> and \<^verbatim>\<open>password\<close> have no default: \<^verbatim>\<open>values\<close> gives them.
\<close>

definition users_defaults :: "string \<Rightarrow> int \<Rightarrow> User" where
  "users_defaults newId now =
     \<lparr>u_id = newId, u_email = [], u_password = [],
      u_firstName = None, u_lastName = None, u_phone = None,
      u_role = ''customer'', u_isActive = True, u_emailVerified = False,
      u_lastLoginAt = None, u_createdAt = now, u_updatedAt = now\<rparr>"

definition register_try ::
  "AuthService \<Rightarrow> string \<Rightarrow> int \<Rightarrow> RegisterInput \<Rightarrow> db \<Rightarrow> (error + Response) \<times> db" where
  "register_try svc newId now input d =
     (case store_call (select_users (\<lambda>u. u_email u = reg_email input) 1) d of
        (Inl e, d1) \<Rightarrow> (Inl e, d1)
      | (Inr existingUser, d1) \<Rightarrow>
          (if length existingUser > 0
           then (Inr (c_json (error_obj ''User already exists with this email'') 400), d1)
           else
             (case hashPassword svc (reg_password input) of
                Inl e \<Rightarrow> (Inl e, d1)
              | Inr hashedPassword \<Rightarrow>
                  (case store_call
                          (insert_users ((users_defaults newId now)
                             \<lparr>u_email := reg_email input,
                              u_password := hashedPassword,
                              u_firstName := reg_firstName input,
                              u_lastName := reg_lastName input,
                              u_phone := reg_phone input,
                              u_role := ''customer''\<rparr>)) d1 of
                     (Inl e, d2) \<Rightarrow> (Inl e, d2)
                   | (Inr newUser, d2) \<Rightarrow>
                       (let user = hd newUser;
                            token = generateToken svc user;
                            userWithoutPassword = omit ''password'' (User_props user)
                        in (Inr (c_json (JObj [(''message'', JStr ''User registered successfully''),
                                               (''user'', JObj userWithoutPassword),
                                               (''token'', JStr token)]) 201), d2))))))"

text \<open>
  \<^verbatim>\<open>auth.post('/register', zValidator('json', registerSchema), ...)\<close>: \<open>newId\<close> is the
  identifier the store generates for the inserted row, \<open>now\<close> the store's clock.
\<close>

definition register ::
  "AuthService \<Rightarrow> (json \<Rightarrow> json + RegisterInput) \<Rightarrow> string \<Rightarrow> int \<Rightarrow> Context \<Rightarrow> db
     \<Rightarrow> Response \<times> db" where
  "register svc registerSchema newId now c d =
     (case zValidator registerSchema c of
        Inl r \<Rightarrow> (r, d)
      | Inr input \<Rightarrow>
          (case register_try svc newId now input d of
             (Inl e, d') \<Rightarrow> (c_json (error_obj ''Internal server error'') 500, d')
           | (Inr r, d') \<Rightarrow> (r, d')))"

definition login_try :: "AuthService \<Rightarrow> int \<Rightarrow> LoginInput \<Rightarrow> db \<Rightarrow> (error + Response) \<times> db" where
  "login_try svc now input d =
     (case store_call (select_users (\<lambda>u. u_email u = login_email input) 1) d of
        (Inl e, d1) \<Rightarrow> (Inl e, d1)
      | (Inr userResult, d1) \<Rightarrow>
          (if userResult = []
           then (Inr (c_json (error_obj ''Invalid credentials'') 401), d1)
           else
             (let user = hd userResult
              in if \<not> u_isActive user
                 then (Inr (c_json (error_obj ''Account is deactivated'') 401), d1)
                 else
                   (case comparePassword svc (login_password input) (u_password user) of
                      Inl e \<Rightarrow> (Inl e, d1)
                    | Inr isValidPassword \<Rightarrow>
                        (if \<not> isValidPassword
                         then (Inr (c_json (error_obj ''Invalid credentials'') 401), d1)
                         else
                           (case store_call
                                   (update_users (\<lambda>u. u\<lparr>u_lastLoginAt := Some now\<rparr>)
                                      (\<lambda>u. u_id u = u_id user)) d1 of
                              (Inl e, d2) \<Rightarrow> (Inl e, d2)
                            | (Inr _, d2) \<Rightarrow>
                                (let token = generateToken svc user;
                                     userWithoutPassword = omit ''password'' (User_props user)
                                 in (Inr (c_json (JObj [(''message'', JStr ''Login successful''),
                                                        (''user'', JObj userWithoutPassword),
                                                        (''token'', JStr token)]) 200), d2))))))))"

definition login ::
  "AuthService \<Rightarrow> (json \<Rightarrow> json + LoginInput) \<Rightarrow> int \<Rightarrow> Context \<Rightarrow> db \<Rightarrow> Response \<times> db" where
  "login svc loginSchema now c d =
     (case zValidator loginSchema c of
        Inl r \<Rightarrow> (r, d)
      | Inr input \<Rightarrow>
          (case login_try svc now input d of
             (Inl e, d') \<Rightarrow> (c_json (error_obj ''Internal server error'') 500, d')
           | (Inr r, d') \<Rightarrow> (r, d')))"

text \<open>
  The handler of \<^verbatim>\<open>GET /me\<close>. Destructuring \<^verbatim>\<open>c.get('user')\<close> throws a TypeError when
  the variable is unset.
\<close>

definition me_try :: "Context \<Rightarrow> db \<Rightarrow> (error + Response) \<times> db" where
  "me_try c d =
     (case var_user c of
        None \<Rightarrow> (Inl TypeError, d)
      | Some user \<Rightarrow>
          (let id = au_id user
           in case store_call (select_users (\<lambda>u. u_id u = id) 1) d of
                (Inl e, d') \<Rightarrow> (Inl e, d')
              | (Inr userResult, d') \<Rightarrow>
                  (if userResult = []
                   then (Inr (c_json (error_obj ''User not found'') 404), d')
                   else
                     (let userWithoutPassword = omit ''password'' (User_props (hd userResult))
                      in (Inr (c_json (JObj [(''user'', JObj userWithoutPassword)]) 200), d')))))"

definition me_handler :: "Context \<Rightarrow> db \<Rightarrow> Response \<times> db" where
  "me_handler c d =
     (case me_try c d of
        (Inl e, d') \<Rightarrow> (c_json (error_obj ''Internal server error'') 500, d')
      | (Inr r, d') \<Rightarrow> (r, d'))"

text \<open>\<^verbatim>\<open>auth.get('/me', authMiddleware, ...)\<close>: the gate, then the handler.\<close>

definition me :: "AuthService \<Rightarrow> Context \<Rightarrow> db \<Rightarrow> Response \<times> db" where
  "me svc c d =
     (case authMiddleware svc c d of
        (Respond r, d') \<Rightarrow> (r, d')
      | (Next c', d') \<Rightarrow> me_handler c' d')"

section \<open>Token issue\<close>

text \<open>
  Modelled from the spec: \<^verbatim>\<open>AuthService.generateToken\<close> (lib/auth) is not among the
  sources. Section 4.2: issue builds the claims subject id, e-mail and role of the
  identity, with the issue and expiry times, and serializes and signs them with the
  server's secret. \<open>claims_of\<close> is the part of the claims taken from the identity;
  \<open>sign\<close> stands for adding the times, serializing and signing.
\<close>

definition claims_of :: "User \<Rightarrow> TokenPayload" where
  "claims_of u = \<lparr>userId = u_id u, email = u_email u, role = u_role u\<rparr>"

definition issue_token :: "(TokenPayload \<Rightarrow> string) \<Rightarrow> User \<Rightarrow> string" where
  "issue_token sign u = sign (claims_of u)"

section \<open>Sample data\<close>

text \<open>
  A concrete service, subject and request, on which the theorems below are run. The
  service extracts \<^verbatim>\<open>Bearer <token>\<close>, verifies exactly the token \<^verbatim>\<open>t1\<close> (claims:
  subject \<^verbatim>\<open>u1\<close>, role \<^verbatim>\<open>admin\<close>) and hashes by prefixing.
\<close>

definition example_svc :: AuthService where
  "example_svc =
     \<lparr>extractTokenFromHeader =
        (\<lambda>h. case h of None \<Rightarrow> None
              | Some s \<Rightarrow> if take 7 s = ''Bearer '' then Some (drop 7 s) else None),
      verifyToken =
        (\<lambda>t. if t = ''t1'' then Inr \<lparr>userId = ''u1'', email = ''a@x.com'', role = ''admin''\<rparr>
              else Inl JsonWebTokenError),
      hashPassword = (\<lambda>p. Inr (''h:'' @ p)),
      comparePassword = (\<lambda>p h. Inr (h = ''h:'' @ p)),
      generateToken = (\<lambda>u. ''t1'')\<rparr>"

definition example_user :: User where
  "example_user =
     \<lparr>u_id = ''u1'', u_email = ''a@x.com'', u_password = ''h:pw12345678'',
      u_firstName = None, u_lastName = None, u_phone = None,
      u_role = ''customer'', u_isActive = True, u_emailVerified = False,
      u_lastLoginAt = None, u_createdAt = 0, u_updatedAt = 0\<rparr>"

text \<open>
  A request with the given \<^verbatim>\<open>Authorization\<close> header, \<^verbatim>\<open>X-API-Key\<close> header and
  \<^verbatim>\<open>api_key\<close> query parameter, route parameter \<^verbatim>\<open>id = k1\<close>, and a fresh context.
\<close>

definition example_request :: "string option \<Rightarrow> string option \<Rightarrow> string option \<Rightarrow> Context" where
  "example_request auth hkey qkey =
     \<lparr>req = \<lparr>header = (\<lambda>n. if n = ''Authorization'' then auth
                           else if n = ''X-API-Key'' then hkey else None),
              query = (\<lambda>n. if n = ''api_key'' then qkey else None),
              param = (\<lambda>n. ''k1''),
              json_body = JNull\<rparr>,
      var_user = None, var_apiKey = None\<rparr>"

text \<open>An active API key that expires at the instant 1000.\<close>

definition example_key :: ApiKey where
  "example_key =
     \<lparr>k_id = ''k1'', k_name = ''storefront'', k_key = ''zk_a'', k_description = None,
      k_createdBy = ''u1'', k_isActive = True, k_lastUsedAt = None, k_expiresAt = Some 1000,
      k_createdAt = 0, k_updatedAt = 0\<rparr>"

text \<open>
  A stand-in for zod's parse of the two bodies: it reads \<^verbatim>\<open>email\<close> and \<^verbatim>\<open>password\<close>
  (at least 8 characters to register) and drops every other property of the body.
\<close>

definition example_registerSchema :: "json \<Rightarrow> json + RegisterInput" where
  "example_registerSchema j =
     (case (get_prop j ''email'', get_prop j ''password'') of
        (Some (JStr e), Some (JStr p)) \<Rightarrow>
          (if 8 \<le> length p
           then Inr \<lparr>reg_email = e, reg_password = p, reg_firstName = None,
                     reg_lastName = None, reg_phone = None\<rparr>
           else Inl (JStr ''too_small''))
      | _ \<Rightarrow> Inl (JStr ''invalid_type''))"

definition example_loginSchema :: "json \<Rightarrow> json + LoginInput" where
  "example_loginSchema j =
     (case (get_prop j ''email'', get_prop j ''password'') of
        (Some (JStr e), Some (JStr p)) \<Rightarrow> Inr \<lparr>login_email = e, login_password = p\<rparr>
      | _ \<Rightarrow> Inl (JStr ''invalid_type''))"

text \<open>A request with the given JSON body and no credentials.\<close>

definition example_post :: "json \<Rightarrow> Context" where
  "example_post b =
     \<lparr>req = \<lparr>header = (\<lambda>n. None), query = (\<lambda>n. None), param = (\<lambda>n. []), json_body = b\<rparr>,
      var_user = None, var_apiKey = None\<rparr>"

text \<open>The credentials of the end-to-end scenario, with a \<^verbatim>\<open>role\<close> property smuggled in.\<close>

definition example_body :: json where
  "example_body =
     JObj [(''email'', JStr ''a@x.com''), (''password'', JStr ''pw12345678''),
           (''role'', JStr ''admin'')]"

text \<open>A stand-in for zod's parse of the create body: it reads \<^verbatim>\<open>name\<close> only.\<close>

definition example_createSchema :: "json \<Rightarrow> json + CreateApiKeyInput" where
  "example_createSchema j =
     (case get_prop j ''name'' of
        Some (JStr n) \<Rightarrow>
          (if 1 \<le> length n
           then Inr \<lparr>ck_name = n, ck_description = None, ck_expiresAt = None\<rparr>
           else Inl (JStr ''too_small''))
      | _ \<Rightarrow> Inl (JStr ''invalid_type''))"

section \<open>The spec's reading of a usable key\<close>

text \<open>
  The invariant as the specification words it: a key is usable if and only if it is
  active and its expiry is unset or strictly later than now. It is compared with what
  \<^verbatim>\<open>apiKeyMiddleware\<close> accepts.
\<close>

definition spec_usable :: "int \<Rightarrow> ApiKey \<Rightarrow> bool" where
  "spec_usable now k =
     (k_isActive k \<and> (case k_expiresAt k of None \<Rightarrow> True | Some e \<Rightarrow> e > now))"

section \<open>Store calls and list lemmas\<close>

lemma store_call_select_users:
  "store_call (select_users p n) d =
     (if faults d \<noteq> [] \<and> hd (faults d) then (Inl StoreUnreachable, d\<lparr>faults := tl (faults d)\<rparr>)
      else (Inr (take n (filter p (users d))), d\<lparr>faults := tl (faults d)\<rparr>))"
  by (cases "faults d") (auto simp: store_call_def select_users_def)

lemma store_call_select_apiKeys:
  "store_call (select_apiKeys p) d =
     (if faults d \<noteq> [] \<and> hd (faults d) then (Inl StoreUnreachable, d\<lparr>faults := tl (faults d)\<rparr>)
      else (Inr (filter p (apiKeys d)), d\<lparr>faults := tl (faults d)\<rparr>))"
  by (cases "faults d") (auto simp: store_call_def select_apiKeys_def)

lemma faults_nil_update: "faults d = [] \<Longrightarrow> d\<lparr>faults := []\<rparr> = d"
  by (cases d) simp

lemma store_call_ok:
  "True \<notin> set (faults d) \<Longrightarrow>
     store_call q d = (Inr (fst (q (d\<lparr>faults := tl (faults d)\<rparr>))), snd (q (d\<lparr>faults := tl (faults d)\<rparr>)))"
  by (cases "faults d") (auto simp: store_call_def faults_nil_update split: prod.splits)

lemma take1_filter_map_role:
  "take (Suc 0) (filter (\<lambda>u. u_id u = x) (map (\<lambda>u. u\<lparr>u_email := g u, u_role := f u\<rparr>) xs))
     = map (\<lambda>u. u\<lparr>u_email := g u, u_role := f u\<rparr>) (take (Suc 0) (filter (\<lambda>u. u_id u = x) xs))"
  by (simp add: filter_map take_map comp_def)

lemma hd_filter:
  "filter p xs \<noteq> [] \<Longrightarrow> hd (filter p xs) \<in> set xs \<and> p (hd (filter p xs))"
  by (induction xs) auto

lemma filter_Cons_first: "filter p xs = r # rest \<Longrightarrow> r \<in> set xs \<and> p r"
proof -
  assume "filter p xs = r # rest"
  then have "r \<in> set (filter p xs)" by simp
  then show ?thesis by simp
qed

lemma filter_distinct_map:
  "distinct (map f xs) \<Longrightarrow> r \<in> set xs \<Longrightarrow> filter (\<lambda>v. f v = f r) xs = [r]"
proof (induction xs)
  case Nil
  then show ?case by simp
next
  case (Cons x xs)
  show ?case
  proof (cases "x = r")
    case True
    with Cons.prems have "f r \<notin> f ` set xs" by simp
    then have "filter (\<lambda>v. f v = f r) xs = []"
      unfolding filter_empty_conv by (metis imageI)
    with True show ?thesis by simp
  next
    case False
    with Cons.prems have "r \<in> set xs" "f x \<noteq> f r" by force+
    with Cons show ?thesis by simp
  qed
qed

lemma distinct_map_eq:
  "distinct (map f xs) \<Longrightarrow> x \<in> set xs \<Longrightarrow> r \<in> set xs \<Longrightarrow> f x = f r \<Longrightarrow> x = r"
  by (meson distinct_map inj_on_def)

section \<open>Session Auth Gate\<close>

text \<open>
  C1. Whenever \<^verbatim>\<open>authMiddleware\<close> reaches \<^verbatim>\<open>next()\<close>, the header held a token that
  verified, and the identity set in the context is the id, e-mail and role of that
  token's claims. The store is not its source: with any other e-mails and roles in the
  stored rows (\<open>g\<close>, \<open>f\<close>) the gate sets the same identity.
\<close>

theorem authMiddleware_identity_from_claims:
  assumes "authMiddleware svc c d = (Next c', d')"
  shows "\<exists>token payload.
           extractTokenFromHeader svc (header (req c) ''Authorization'') = Some token
         \<and> verifyToken svc token = Inr payload
         \<and> var_user c' = Some \<lparr>au_id = userId payload, au_email = email payload,
                                 au_role = role payload\<rparr>
         \<and> fst (authMiddleware svc c
                   (d\<lparr>users := map (\<lambda>u. u\<lparr>u_email := g u, u_role := f u\<rparr>) (users d)\<rparr>)) = Next c'"
  using assms
  apply (simp add: authMiddleware_def authMiddleware_try_def Let_def truthy_def store_call_select_users
      take1_filter_map_role
      split: option.splits sum.splits prod.splits if_splits)
   apply (auto simp: hd_map)
  done

text \<open>
  The subject \<^verbatim>\<open>u1\<close> is stored as \<^verbatim>\<open>customer\<close> (and, in the second run, as
  \<^verbatim>\<open>staff\<close> under another e-mail); the token says \<^verbatim>\<open>admin\<close>, and so does the context.
\<close>

theorem authMiddleware_identity_from_claims_witness:
  "fst (authMiddleware example_svc (example_request (Some ''Bearer t1'') None None)
          \<lparr>users = [example_user], apiKeys = [], faults = []\<rparr>)
     = Next ((example_request (Some ''Bearer t1'') None None)
          \<lparr>var_user := Some \<lparr>au_id = ''u1'', au_email = ''a@x.com'', au_role = ''admin''\<rparr>\<rparr>)
   \<and> u_role example_user = ''customer''
   \<and> fst (authMiddleware example_svc (example_request (Some ''Bearer t1'') None None)
          \<lparr>users = [example_user\<lparr>u_email := ''b@y.org'', u_role := ''staff''\<rparr>], apiKeys = [], faults = []\<rparr>)
     = Next ((example_request (Some ''Bearer t1'') None None)
          \<lparr>var_user := Some \<lparr>au_id = ''u1'', au_email = ''a@x.com'', au_role = ''admin''\<rparr>\<rparr>)"
proof -
  let ?c = "example_request (Some ''Bearer t1'') None None"
  let ?d = "\<lparr>users = [example_user], apiKeys = [], faults = []\<rparr>"
  let ?c' = "?c\<lparr>var_user := Some \<lparr>au_id = ''u1'', au_email = ''a@x.com'', au_role = ''admin''\<rparr>\<rparr>"
  have run: "authMiddleware example_svc ?c ?d = (Next ?c', ?d)"
    by (simp add: authMiddleware_def authMiddleware_try_def example_svc_def example_request_def
        example_user_def truthy_def store_call_def select_users_def)
  from authMiddleware_identity_from_claims [OF run, where g = "\<lambda>u. ''b@y.org''" and f = "\<lambda>u. ''staff''"]
  have "fst (authMiddleware example_svc ?c
           (?d\<lparr>users := map (\<lambda>u. u\<lparr>u_email := ''b@y.org'', u_role := ''staff''\<rparr>) (users ?d)\<rparr>)) = Next ?c'"
    by blast
  with run show ?thesis by (simp add: example_user_def)
qed

text \<open>
  C3. The four checks of \<^verbatim>\<open>authMiddleware\<close> run in order and the first failing one
  answers 401 with a JSON error: no usable token in the header (the store is not touched);
  a token that does not verify (the store is not touched); no subject with the claimed id;
  a subject that is not active. When all four pass, \<^verbatim>\<open>next()\<close> is reached with the
  identity set. \<^verbatim>\<open>next()\<close> is reached only so, and every answer of the gate is a 401
  with an \<^verbatim>\<open>error\<close> string. A token that verifies, for a stored subject (ids are the
  primary key) whose active flag is false, is answered 401.
\<close>

theorem authMiddleware_checks_in_order:
  "(\<not> truthy (extractTokenFromHeader svc (header (req c) ''Authorization'')) \<longrightarrow>
      authMiddleware svc c d =
        (Respond \<lparr>status = 401, body = JObj [(''error'', JStr ''Authorization token required'')]\<rparr>, d))
   \<and> (\<forall>t e. extractTokenFromHeader svc (header (req c) ''Authorization'') = Some t \<and> t \<noteq> []
         \<and> verifyToken svc t = Inl e \<longrightarrow>
      authMiddleware svc c d =
        (Respond \<lparr>status = 401, body = JObj [(''error'', JStr ''Invalid or expired token'')]\<rparr>, d))
   \<and> (\<forall>t p. extractTokenFromHeader svc (header (req c) ''Authorization'') = Some t \<and> t \<noteq> []
         \<and> verifyToken svc t = Inr p
         \<and> fst (store_call (select_users (\<lambda>u. u_id u = userId p) 1) d) = Inr [] \<longrightarrow>
      fst (authMiddleware svc c d) =
        Respond \<lparr>status = 401, body = JObj [(''error'', JStr ''User not found or inactive'')]\<rparr>)
   \<and> (\<forall>t p u us. extractTokenFromHeader svc (header (req c) ''Authorization'') = Some t \<and> t \<noteq> []
         \<and> verifyToken svc t = Inr p
         \<and> fst (store_call (select_users (\<lambda>u. u_id u = userId p) 1) d) = Inr (u # us)
         \<and> \<not> u_isActive u \<longrightarrow>
      fst (authMiddleware svc c d) =
        Respond \<lparr>status = 401, body = JObj [(''error'', JStr ''User not found or inactive'')]\<rparr>)
   \<and> (\<forall>t p u us. extractTokenFromHeader svc (header (req c) ''Authorization'') = Some t \<and> t \<noteq> []
         \<and> verifyToken svc t = Inr p
         \<and> fst (store_call (select_users (\<lambda>u. u_id u = userId p) 1) d) = Inr (u # us)
         \<and> u_isActive u \<longrightarrow>
      fst (authMiddleware svc c d) =
        Next (c\<lparr>var_user := Some \<lparr>au_id = userId p, au_email = email p, au_role = role p\<rparr>\<rparr>))
   \<and> (\<forall>c' d'. authMiddleware svc c d = (Next c', d') \<longrightarrow>
        (\<exists>t p u. extractTokenFromHeader svc (header (req c) ''Authorization'') = Some t \<and> t \<noteq> []
           \<and> verifyToken svc t = Inr p
           \<and> fst (store_call (select_users (\<lambda>u. u_id u = userId p) 1) d) = Inr [u]
           \<and> u \<in> set (users d) \<and> u_id u = userId p \<and> u_isActive u
           \<and> c' = c\<lparr>var_user := Some \<lparr>au_id = userId p, au_email = email p, au_role = role p\<rparr>\<rparr>))
   \<and> (\<forall>r d'. authMiddleware svc c d = (Respond r, d') \<longrightarrow>
        status r = 401 \<and> (\<exists>msg. body r = JObj [(''error'', JStr msg)]))
   \<and> (\<forall>t p u. extractTokenFromHeader svc (header (req c) ''Authorization'') = Some t
         \<and> verifyToken svc t = Inr p
         \<and> distinct (map u_id (users d)) \<and> u \<in> set (users d) \<and> u_id u = userId p
         \<and> \<not> u_isActive u \<longrightarrow>
        (\<exists>r. fst (authMiddleware svc c d) = Respond r \<and> status r = 401))"
proof -
  let ?h = "extractTokenFromHeader svc (header (req c) ''Authorization'')"
  have 1: "\<not> truthy ?h \<longrightarrow>
      authMiddleware svc c d =
        (Respond \<lparr>status = 401, body = JObj [(''error'', JStr ''Authorization token required'')]\<rparr>, d)"
    by (simp add: authMiddleware_def authMiddleware_try_def c_json_def error_obj_def)
  have 2: "\<forall>t e. ?h = Some t \<and> t \<noteq> [] \<and> verifyToken svc t = Inl e \<longrightarrow>
      authMiddleware svc c d =
        (Respond \<lparr>status = 401, body = JObj [(''error'', JStr ''Invalid or expired token'')]\<rparr>, d)"
    by (simp add: authMiddleware_def authMiddleware_try_def c_json_def error_obj_def truthy_def)
  have 3: "\<forall>t p. ?h = Some t \<and> t \<noteq> [] \<and> verifyToken svc t = Inr p
         \<and> fst (store_call (select_users (\<lambda>u. u_id u = userId p) 1) d) = Inr [] \<longrightarrow>
      fst (authMiddleware svc c d) =
        Respond \<lparr>status = 401, body = JObj [(''error'', JStr ''User not found or inactive'')]\<rparr>"
    by (auto simp: authMiddleware_def authMiddleware_try_def c_json_def error_obj_def truthy_def
        split: prod.splits sum.splits)
  have 4: "\<forall>t p u us. ?h = Some t \<and> t \<noteq> [] \<and> verifyToken svc t = Inr p
         \<and> fst (store_call (select_users (\<lambda>u. u_id u = userId p) 1) d) = Inr (u # us)
         \<and> \<not> u_isActive u \<longrightarrow>
      fst (authMiddleware svc c d) =
        Respond \<lparr>status = 401, body = JObj [(''error'', JStr ''User not found or inactive'')]\<rparr>"
    by (auto simp: authMiddleware_def authMiddleware_try_def c_json_def error_obj_def truthy_def
        split: prod.splits sum.splits)
  have 5: "\<forall>t p u us. ?h = Some t \<and> t \<noteq> [] \<and> verifyToken svc t = Inr p
         \<and> fst (store_call (select_users (\<lambda>u. u_id u = userId p) 1) d) = Inr (u # us)
         \<and> u_isActive u \<longrightarrow>
      fst (authMiddleware svc c d) =
        Next (c\<lparr>var_user := Some \<lparr>au_id = userId p, au_email = email p, au_role = role p\<rparr>\<rparr>)"
    by (auto simp: authMiddleware_def authMiddleware_try_def c_json_def error_obj_def truthy_def
        split: prod.splits sum.splits)
  have 6: "\<forall>c' d'. authMiddleware svc c d = (Next c', d') \<longrightarrow>
        (\<exists>t p u. ?h = Some t \<and> t \<noteq> [] \<and> verifyToken svc t = Inr p
           \<and> fst (store_call (select_users (\<lambda>u. u_id u = userId p) 1) d) = Inr [u]
           \<and> u \<in> set (users d) \<and> u_id u = userId p \<and> u_isActive u
           \<and> c' = c\<lparr>var_user := Some \<lparr>au_id = userId p, au_email = email p, au_role = role p\<rparr>\<rparr>)"
    apply (simp add: authMiddleware_def authMiddleware_try_def Let_def truthy_def
        store_call_select_users split: option.splits sum.splits prod.splits if_splits)
    apply (auto simp: take_Suc dest: hd_filter split: list.splits)
    done
  have 7: "\<forall>r d'. authMiddleware svc c d = (Respond r, d') \<longrightarrow>
        status r = 401 \<and> (\<exists>msg. body r = JObj [(''error'', JStr msg)])"
    by (auto simp: authMiddleware_def authMiddleware_try_def Let_def c_json_def error_obj_def
        split: option.splits sum.splits prod.splits if_splits)
  have 8: "\<forall>t p u. ?h = Some t \<and> verifyToken svc t = Inr p
         \<and> distinct (map u_id (users d)) \<and> u \<in> set (users d) \<and> u_id u = userId p
         \<and> \<not> u_isActive u \<longrightarrow>
        (\<exists>r. fst (authMiddleware svc c d) = Respond r \<and> status r = 401)"
  proof (intro allI impI)
    fix t p u
    assume a: "?h = Some t \<and> verifyToken svc t = Inr p
         \<and> distinct (map u_id (users d)) \<and> u \<in> set (users d) \<and> u_id u = userId p
         \<and> \<not> u_isActive u"
    then have "filter (\<lambda>v. u_id v = userId p) (users d) = [u]"
      using filter_distinct_map [of u_id "users d" u] by simp
    with a show "\<exists>r. fst (authMiddleware svc c d) = Respond r \<and> status r = 401"
      by (auto simp: authMiddleware_def authMiddleware_try_def Let_def c_json_def
          store_call_select_users split: option.splits sum.splits prod.splits if_splits)
  qed
  show ?thesis
    by (intro conjI) (fact 1 2 3 4 5 6 7 8)+
qed

text \<open>
  No header; a token that does not verify (in both runs the store would have failed, and
  is not asked); a valid token of a deactivated subject; a valid token of an active one.
\<close>

theorem authMiddleware_checks_in_order_witness:
  "authMiddleware example_svc (example_request None None None)
      \<lparr>users = [example_user], apiKeys = [], faults = [True]\<rparr>
     = (Respond \<lparr>status = 401, body = JObj [(''error'', JStr ''Authorization token required'')]\<rparr>,
        \<lparr>users = [example_user], apiKeys = [], faults = [True]\<rparr>)
   \<and> authMiddleware example_svc (example_request (Some ''Bearer t2'') None None)
      \<lparr>users = [example_user], apiKeys = [], faults = [True]\<rparr>
     = (Respond \<lparr>status = 401, body = JObj [(''error'', JStr ''Invalid or expired token'')]\<rparr>,
        \<lparr>users = [example_user], apiKeys = [], faults = [True]\<rparr>)
   \<and> fst (authMiddleware example_svc (example_request (Some ''Bearer t1'') None None)
      \<lparr>users = [example_user\<lparr>u_isActive := False\<rparr>], apiKeys = [], faults = []\<rparr>)
     = Respond \<lparr>status = 401, body = JObj [(''error'', JStr ''User not found or inactive'')]\<rparr>
   \<and> fst (authMiddleware example_svc (example_request (Some ''Bearer t1'') None None)
      \<lparr>users = [example_user], apiKeys = [], faults = []\<rparr>)
     = Next ((example_request (Some ''Bearer t1'') None None)
         \<lparr>var_user := Some \<lparr>au_id = ''u1'', au_email = ''a@x.com'', au_role = ''admin''\<rparr>\<rparr>)"
proof -
  let ?d = "\<lparr>users = [example_user], apiKeys = [], faults = [True]\<rparr>"
  let ?d1 = "\<lparr>users = [example_user\<lparr>u_isActive := False\<rparr>], apiKeys = [], faults = []\<rparr>"
  let ?d2 = "\<lparr>users = [example_user], apiKeys = [], faults = []\<rparr>"
  let ?c1 = "example_request (Some ''Bearer t1'') None None"
  let ?c2 = "example_request (Some ''Bearer t2'') None None"
  let ?p = "\<lparr>userId = ''u1'', email = ''a@x.com'', role = ''admin''\<rparr>"
  have a: "\<not> truthy (extractTokenFromHeader example_svc
             (header (req (example_request None None None)) ''Authorization''))"
    by (simp add: example_svc_def example_request_def truthy_def)
  have b: "extractTokenFromHeader example_svc (header (req ?c2) ''Authorization'') = Some ''t2''
           \<and> ''t2'' \<noteq> [] \<and> verifyToken example_svc ''t2'' = Inl JsonWebTokenError"
    by (simp add: example_svc_def example_request_def)
  have c: "extractTokenFromHeader example_svc (header (req ?c1) ''Authorization'') = Some ''t1''
           \<and> ''t1'' \<noteq> [] \<and> verifyToken example_svc ''t1'' = Inr ?p"
    by (simp add: example_svc_def example_request_def)
  have l1: "fst (store_call (select_users (\<lambda>u. u_id u = userId ?p) 1) ?d1)
              = Inr (example_user\<lparr>u_isActive := False\<rparr> # [])
            \<and> \<not> u_isActive (example_user\<lparr>u_isActive := False\<rparr>)"
    by (simp add: store_call_def select_users_def example_user_def)
  have l2: "fst (store_call (select_users (\<lambda>u. u_id u = userId ?p) 1) ?d2) = Inr (example_user # [])
            \<and> u_isActive example_user"
    by (simp add: store_call_def select_users_def example_user_def)
  have 1: "authMiddleware example_svc (example_request None None None) ?d
     = (Respond \<lparr>status = 401, body = JObj [(''error'', JStr ''Authorization token required'')]\<rparr>, ?d)"
    using authMiddleware_checks_in_order [of example_svc "example_request None None None" ?d] a
    by blast
  have 2: "authMiddleware example_svc ?c2 ?d
     = (Respond \<lparr>status = 401, body = JObj [(''error'', JStr ''Invalid or expired token'')]\<rparr>, ?d)"
    using authMiddleware_checks_in_order [of example_svc ?c2 ?d] b
    by blast
  have 3: "fst (authMiddleware example_svc ?c1 ?d1)
     = Respond \<lparr>status = 401, body = JObj [(''error'', JStr ''User not found or inactive'')]\<rparr>"
    using authMiddleware_checks_in_order [of example_svc ?c1 ?d1] c l1
    by blast
  have 4: "fst (authMiddleware example_svc ?c1 ?d2)
     = Next (?c1\<lparr>var_user := Some \<lparr>au_id = userId ?p, au_email = email ?p, au_role = role ?p\<rparr>\<rparr>)"
    using authMiddleware_checks_in_order [of example_svc ?c1 ?d2] c l2
    by blast
  from 1 2 3 4 show ?thesis by simp
qed

text \<open>
  C4. The store throws while a request with a valid token is authenticated:
  \<^verbatim>\<open>authMiddleware\<close> answers 401 \<^verbatim>\<open>Invalid or expired token\<close>, exactly as for a token
  that does not verify, not 500. \<^verbatim>\<open>apiKeyMiddleware\<close> answers 500
  \<^verbatim>\<open>Authentication failed\<close> when its store call throws.
\<close>

theorem store_failure_status:
  "authMiddleware example_svc (example_request (Some ''Bearer t1'') None None)
      \<lparr>users = [example_user], apiKeys = [], faults = [True]\<rparr>
     = (Respond \<lparr>status = 401, body = JObj [(''error'', JStr ''Invalid or expired token'')]\<rparr>,
        \<lparr>users = [example_user], apiKeys = [], faults = []\<rparr>)
   \<and> authMiddleware example_svc (example_request (Some ''Bearer t2'') None None)
      \<lparr>users = [example_user], apiKeys = [], faults = []\<rparr>
     = (Respond \<lparr>status = 401, body = JObj [(''error'', JStr ''Invalid or expired token'')]\<rparr>,
        \<lparr>users = [example_user], apiKeys = [], faults = []\<rparr>)
   \<and> apiKeyMiddleware 5 6 (example_request None (Some ''zk_a'') None)
      \<lparr>users = [], apiKeys = [example_key], faults = [True]\<rparr>
     = (Respond \<lparr>status = 500, body = JObj [(''error'', JStr ''Authentication failed'')]\<rparr>,
        \<lparr>users = [], apiKeys = [example_key], faults = []\<rparr>)"
  by (simp add: authMiddleware_def authMiddleware_try_def apiKeyMiddleware_def
      apiKeyMiddleware_try_def js_or_def truthy_def example_svc_def example_user_def
      example_request_def example_key_def store_call_def select_users_def select_apiKeys_def
      c_json_def error_obj_def)

section \<open>Role Gate\<close>

text \<open>
  C5. \<^verbatim>\<open>requireRole(roles)\<close>: with no identity in the context the answer is 401
  \<^verbatim>\<open>Authentication required\<close>; with an identity whose role is not among \<open>roles\<close> it is
  403 \<^verbatim>\<open>Insufficient permissions\<close>; otherwise \<^verbatim>\<open>next()\<close> is reached with the context
  unchanged. \<^verbatim>\<open>requireAdmin\<close> is the gate for \<open>{admin}\<close>, \<^verbatim>\<open>requireStaff\<close> the gate for
  \<open>{admin, staff}\<close>; so \<^verbatim>\<open>requireAdmin\<close> answers a staff identity with 403 and lets an
  admin identity through.
\<close>

theorem requireRole_gate:
  "(var_user c = None \<longrightarrow>
      requireRole roles c =
        Respond \<lparr>status = 401, body = JObj [(''error'', JStr ''Authentication required'')]\<rparr>)
   \<and> (\<forall>u. var_user c = Some u \<and> au_role u \<notin> set roles \<longrightarrow>
      requireRole roles c =
        Respond \<lparr>status = 403, body = JObj [(''error'', JStr ''Insufficient permissions'')]\<rparr>)
   \<and> (\<forall>u. var_user c = Some u \<and> au_role u \<in> set roles \<longrightarrow> requireRole roles c = Next c)
   \<and> requireAdmin c = requireRole [''admin''] c \<and> set [''admin''] = {''admin''}
   \<and> requireStaff c = requireRole [''admin'', ''staff''] c
   \<and> set [''admin'', ''staff''] = {''admin'', ''staff''}
   \<and> (\<forall>u. var_user c = Some u \<and> au_role u = ''staff'' \<longrightarrow>
      requireAdmin c =
        Respond \<lparr>status = 403, body = JObj [(''error'', JStr ''Insufficient permissions'')]\<rparr>)
   \<and> (\<forall>u. var_user c = Some u \<and> au_role u = ''admin'' \<longrightarrow> requireAdmin c = Next c)"
  by (auto simp: requireRole_def requireAdmin_def requireStaff_def c_json_def error_obj_def)

theorem requireRole_gate_witness:
  "requireAdmin ((example_request None None None)
      \<lparr>var_user := Some \<lparr>au_id = ''u2'', au_email = ''s@x.com'', au_role = ''staff''\<rparr>\<rparr>)
     = Respond \<lparr>status = 403, body = JObj [(''error'', JStr ''Insufficient permissions'')]\<rparr>
   \<and> requireAdmin ((example_request None None None)
      \<lparr>var_user := Some \<lparr>au_id = ''u1'', au_email = ''a@x.com'', au_role = ''admin''\<rparr>\<rparr>)
     = Next ((example_request None None None)
      \<lparr>var_user := Some \<lparr>au_id = ''u1'', au_email = ''a@x.com'', au_role = ''admin''\<rparr>\<rparr>)
   \<and> requireStaff (example_request None None None)
     = Respond \<lparr>status = 401, body = JObj [(''error'', JStr ''Authentication required'')]\<rparr>
   \<and> requireStaff ((example_request None None None)
      \<lparr>var_user := Some \<lparr>au_id = ''u3'', au_email = ''c@x.com'', au_role = ''customer''\<rparr>\<rparr>)
     = Respond \<lparr>status = 403, body = JObj [(''error'', JStr ''Insufficient permissions'')]\<rparr>"
proof -
  let ?c0 = "example_request None None None"
  let ?staff = "\<lparr>au_id = ''u2'', au_email = ''s@x.com'', au_role = ''staff''\<rparr>"
  let ?admin = "\<lparr>au_id = ''u1'', au_email = ''a@x.com'', au_role = ''admin''\<rparr>"
  let ?cust = "\<lparr>au_id = ''u3'', au_email = ''c@x.com'', au_role = ''customer''\<rparr>"
  have 1: "requireAdmin (?c0\<lparr>var_user := Some ?staff\<rparr>)
      = Respond \<lparr>status = 403, body = JObj [(''error'', JStr ''Insufficient permissions'')]\<rparr>"
    using requireRole_gate [of "?c0\<lparr>var_user := Some ?staff\<rparr>" "[''admin'']"] by simp
  have 2: "requireAdmin (?c0\<lparr>var_user := Some ?admin\<rparr>) = Next (?c0\<lparr>var_user := Some ?admin\<rparr>)"
    using requireRole_gate [of "?c0\<lparr>var_user := Some ?admin\<rparr>" "[''admin'']"] by simp
  have g3: "var_user ?c0 = None" by (simp add: example_request_def)
  have 3: "requireStaff ?c0
      = Respond \<lparr>status = 401, body = JObj [(''error'', JStr ''Authentication required'')]\<rparr>"
    using requireRole_gate [of ?c0 "[''admin'', ''staff'']"] g3 by simp
  have 4: "requireStaff (?c0\<lparr>var_user := Some ?cust\<rparr>)
      = Respond \<lparr>status = 403, body = JObj [(''error'', JStr ''Insufficient permissions'')]\<rparr>"
    using requireRole_gate [of "?c0\<lparr>var_user := Some ?cust\<rparr>" "[''admin'', ''staff'']"] by simp
  from 1 2 3 4 show ?thesis by blast
qed

section \<open>API key gate\<close>

lemma apiKey_run:
  assumes "js_or (header (req c) ''X-API-Key'') (query (req c) ''api_key'') = Some k" "k \<noteq> []"
    and "True \<notin> set (faults d)"
  shows "apiKeyMiddleware now used c d =
     (case filter (\<lambda>r. k_key r = k \<and> k_isActive r) (apiKeys d) of
        [] \<Rightarrow> (Respond \<lparr>status = 401, body = JObj [(''error'', JStr ''Invalid API key'')]\<rparr>,
                d\<lparr>faults := tl (faults d)\<rparr>)
      | r # _ \<Rightarrow>
          (if (case k_expiresAt r of None \<Rightarrow> False | Some e \<Rightarrow> now > e)
           then (Respond \<lparr>status = 401, body = JObj [(''error'', JStr ''API key has expired'')]\<rparr>,
                 d\<lparr>faults := tl (faults d)\<rparr>)
           else (Next (c\<lparr>var_apiKey := Some r\<rparr>),
                 d\<lparr>faults := tl (tl (faults d)),
                   apiKeys := map (\<lambda>x. if k_id x = k_id r then x\<lparr>k_lastUsedAt := Some used\<rparr> else x)
                                (apiKeys d)\<rparr>)))"
proof -
  have t: "True \<notin> set (tl (faults d))"
    using assms(3) by (cases "faults d") auto
  show ?thesis
    using assms t
    by (simp add: apiKeyMiddleware_def apiKeyMiddleware_try_def truthy_def store_call_ok
        select_apiKeys_def update_apiKeys_def c_json_def error_obj_def
        split: list.splits option.splits)
qed

text \<open>
  C2, as the code has it. Let a non-empty key \<open>k\<close> be presented, the store answer its
  calls, and key values be unique in the table (the column is \<^verbatim>\<open>unique\<close>). Then
  \<^verbatim>\<open>apiKeyMiddleware\<close> reaches \<^verbatim>\<open>next()\<close> if and only if a stored row with that key
  value is active and its \<^verbatim>\<open>expiresAt\<close> is unset or not earlier than now: the test is
  \<^verbatim>\<open>new Date() > keyRecord.expiresAt\<close>, so a key is still accepted at the instant of its
  expiry. Such a row is the one set in the context. A row that is active and whose expiry
  is strictly in the past is answered 401 \<^verbatim>\<open>API key has expired\<close>; a row that is not
  active is answered 401 \<^verbatim>\<open>Invalid API key\<close>, whatever its expiry.
\<close>

theorem apiKeyMiddleware_accepts_iff:
  assumes key: "js_or (header (req c) ''X-API-Key'') (query (req c) ''api_key'') = Some k" "k \<noteq> []"
    and reach: "True \<notin> set (faults d)"
    and uniq: "distinct (map k_key (apiKeys d))"
  shows "((\<exists>c'. fst (apiKeyMiddleware now used c d) = Next c') \<longleftrightarrow>
            (\<exists>r \<in> set (apiKeys d). k_key r = k \<and> k_isActive r
                \<and> (case k_expiresAt r of None \<Rightarrow> True | Some e \<Rightarrow> e \<ge> now)))
       \<and> (\<forall>r. r \<in> set (apiKeys d) \<and> k_key r = k \<and> k_isActive r
                \<and> (case k_expiresAt r of None \<Rightarrow> True | Some e \<Rightarrow> e \<ge> now) \<longrightarrow>
              fst (apiKeyMiddleware now used c d) = Next (c\<lparr>var_apiKey := Some r\<rparr>))
       \<and> (\<forall>r e. r \<in> set (apiKeys d) \<and> k_key r = k \<and> k_isActive r
                \<and> k_expiresAt r = Some e \<and> e < now \<longrightarrow>
              fst (apiKeyMiddleware now used c d) =
                Respond \<lparr>status = 401, body = JObj [(''error'', JStr ''API key has expired'')]\<rparr>)
       \<and> (\<forall>r. r \<in> set (apiKeys d) \<and> k_key r = k \<and> \<not> k_isActive r \<longrightarrow>
              fst (apiKeyMiddleware now used c d) =
                Respond \<lparr>status = 401, body = JObj [(''error'', JStr ''Invalid API key'')]\<rparr>)"
proof -
  note run = apiKey_run [OF key reach, of now used]
  have split: "filter (\<lambda>r. k_key r = k \<and> k_isActive r) (apiKeys d)
                 = filter k_isActive (filter (\<lambda>r. k_key r = k) (apiKeys d))"
    by (simp add: conj_commute)
  have found: "filter (\<lambda>r. k_key r = k \<and> k_isActive r) (apiKeys d) = (if k_isActive r then [r] else [])"
    if "r \<in> set (apiKeys d)" "k_key r = k" for r
    using filter_distinct_map [OF uniq that(1)] that(2) split by simp
  have none: "filter (\<lambda>r. k_key r = k \<and> k_isActive r) (apiKeys d) = []"
    if "\<not> (\<exists>r \<in> set (apiKeys d). k_key r = k)"
    using that by (auto simp: filter_empty_conv)
  have 1: "(\<exists>c'. fst (apiKeyMiddleware now used c d) = Next c') \<longleftrightarrow>
            (\<exists>r \<in> set (apiKeys d). k_key r = k \<and> k_isActive r
                \<and> (case k_expiresAt r of None \<Rightarrow> True | Some e \<Rightarrow> e \<ge> now))"
  proof (cases "\<exists>r \<in> set (apiKeys d). k_key r = k")
    case True
    then obtain r where r: "r \<in> set (apiKeys d)" "k_key r = k" by blast
    have only: "r' = r" if "r' \<in> set (apiKeys d)" "k_key r' = k" for r'
      using filter_distinct_map [OF uniq that(1)] filter_distinct_map [OF uniq r(1)] that(2) r(2)
      by simp
    show ?thesis
    proof
      assume "\<exists>c'. fst (apiKeyMiddleware now used c d) = Next c'"
      then have "k_isActive r \<and> (case k_expiresAt r of None \<Rightarrow> True | Some e \<Rightarrow> e \<ge> now)"
        using run found [OF r] by (auto split: if_splits option.splits)
      with r show "\<exists>r \<in> set (apiKeys d). k_key r = k \<and> k_isActive r
                \<and> (case k_expiresAt r of None \<Rightarrow> True | Some e \<Rightarrow> e \<ge> now)"
        by blast
    next
      assume "\<exists>r \<in> set (apiKeys d). k_key r = k \<and> k_isActive r
                \<and> (case k_expiresAt r of None \<Rightarrow> True | Some e \<Rightarrow> e \<ge> now)"
      then have "k_isActive r \<and> (case k_expiresAt r of None \<Rightarrow> True | Some e \<Rightarrow> e \<ge> now)"
        using only by blast
      then show "\<exists>c'. fst (apiKeyMiddleware now used c d) = Next c'"
        using run found [OF r] by (auto split: option.splits)
    qed
  next
    case False
    then show ?thesis using run none by auto
  qed
  have 2: "\<forall>r. r \<in> set (apiKeys d) \<and> k_key r = k \<and> k_isActive r
                \<and> (case k_expiresAt r of None \<Rightarrow> True | Some e \<Rightarrow> e \<ge> now) \<longrightarrow>
              fst (apiKeyMiddleware now used c d) = Next (c\<lparr>var_apiKey := Some r\<rparr>)"
    using run found by (auto split: option.splits)
  have 3: "\<forall>r e. r \<in> set (apiKeys d) \<and> k_key r = k \<and> k_isActive r
                \<and> k_expiresAt r = Some e \<and> e < now \<longrightarrow>
              fst (apiKeyMiddleware now used c d) =
                Respond \<lparr>status = 401, body = JObj [(''error'', JStr ''API key has expired'')]\<rparr>"
    using run found by auto
  have 4: "\<forall>r. r \<in> set (apiKeys d) \<and> k_key r = k \<and> \<not> k_isActive r \<longrightarrow>
              fst (apiKeyMiddleware now used c d) =
                Respond \<lparr>status = 401, body = JObj [(''error'', JStr ''Invalid API key'')]\<rparr>"
    using run found by auto
  show ?thesis
    by (intro conjI) (fact 1 2 3 4)+
qed

text \<open>
  The key \<^verbatim>\<open>zk_a\<close> expires at 1000: accepted at 999, expired at 1001, invalid once
  deactivated.
\<close>

theorem apiKeyMiddleware_accepts_iff_witness:
  "fst (apiKeyMiddleware 999 999 (example_request None (Some ''zk_a'') None)
          \<lparr>users = [], apiKeys = [example_key], faults = []\<rparr>)
     = Next ((example_request None (Some ''zk_a'') None)\<lparr>var_apiKey := Some example_key\<rparr>)
   \<and> fst (apiKeyMiddleware 1001 1001 (example_request None (Some ''zk_a'') None)
          \<lparr>users = [], apiKeys = [example_key], faults = []\<rparr>)
     = Respond \<lparr>status = 401, body = JObj [(''error'', JStr ''API key has expired'')]\<rparr>
   \<and> fst (apiKeyMiddleware 999 999 (example_request None (Some ''zk_a'') None)
          \<lparr>users = [], apiKeys = [example_key\<lparr>k_isActive := False\<rparr>], faults = []\<rparr>)
     = Respond \<lparr>status = 401, body = JObj [(''error'', JStr ''Invalid API key'')]\<rparr>"
proof -
  let ?c = "example_request None (Some ''zk_a'') None"
  let ?d = "\<lparr>users = [], apiKeys = [example_key], faults = []\<rparr>"
  let ?off = "example_key\<lparr>k_isActive := False\<rparr>"
  let ?d' = "\<lparr>users = [], apiKeys = [?off], faults = []\<rparr>"
  have key: "js_or (header (req ?c) ''X-API-Key'') (query (req ?c) ''api_key'') = Some ''zk_a''"
    by (simp add: js_or_def truthy_def example_request_def)
  have ne: "''zk_a'' \<noteq> []" by simp
  have reach: "True \<notin> set (faults ?d)" "True \<notin> set (faults ?d')" by simp_all
  have uniq: "distinct (map k_key (apiKeys ?d))" "distinct (map k_key (apiKeys ?d'))" by simp_all
  have r1: "example_key \<in> set (apiKeys ?d) \<and> k_key example_key = ''zk_a'' \<and> k_isActive example_key
            \<and> (case k_expiresAt example_key of None \<Rightarrow> True | Some e \<Rightarrow> e \<ge> 999)"
    by (simp add: example_key_def)
  have r2: "example_key \<in> set (apiKeys ?d) \<and> k_key example_key = ''zk_a'' \<and> k_isActive example_key
            \<and> k_expiresAt example_key = Some 1000 \<and> (1000::int) < 1001"
    by (simp add: example_key_def)
  have r3: "?off \<in> set (apiKeys ?d') \<and> k_key ?off = ''zk_a'' \<and> \<not> k_isActive ?off"
    by (simp add: example_key_def)
  have 1: "fst (apiKeyMiddleware 999 999 ?c ?d) = Next (?c\<lparr>var_apiKey := Some example_key\<rparr>)"
    using apiKeyMiddleware_accepts_iff [OF key ne reach(1) uniq(1), of 999 999] r1 by blast
  have 2: "fst (apiKeyMiddleware 1001 1001 ?c ?d)
     = Respond \<lparr>status = 401, body = JObj [(''error'', JStr ''API key has expired'')]\<rparr>"
    using apiKeyMiddleware_accepts_iff [OF key ne reach(1) uniq(1), of 1001 1001] r2 by blast
  have 3: "fst (apiKeyMiddleware 999 999 ?c ?d')
     = Respond \<lparr>status = 401, body = JObj [(''error'', JStr ''Invalid API key'')]\<rparr>"
    using apiKeyMiddleware_accepts_iff [OF key ne reach(2) uniq(2), of 999 999] r3 by blast
  from 1 2 3 show ?thesis by simp
qed

text \<open>
  C2 as stated fails at the boundary: at the instant 1000 the key that expires at 1000 is
  accepted, although it is not usable in the spec's reading (\<open>expiresAt > now\<close>).
\<close>

theorem apiKeyMiddleware_expiry_boundary_counterexample:
  "fst (apiKeyMiddleware 1000 1000 (example_request None (Some ''zk_a'') None)
          \<lparr>users = [], apiKeys = [example_key], faults = []\<rparr>)
     = Next ((example_request None (Some ''zk_a'') None)\<lparr>var_apiKey := Some example_key\<rparr>)
   \<and> k_key example_key = ''zk_a''
   \<and> \<not> spec_usable 1000 example_key"
  by (simp add: apiKeyMiddleware_def apiKeyMiddleware_try_def js_or_def truthy_def
      example_request_def example_key_def store_call_def select_apiKeys_def update_apiKeys_def
      spec_usable_def)

text \<open>
  C6, as the code has it. The key is read by \<^verbatim>\<open>header('X-API-Key') || query('api_key')\<close>:
  a row accepted by the gate carries the header's value when that is non-empty, and the
  query parameter's value otherwise. With a non-empty header the query parameter has no
  influence on the result; with an absent or empty header the header has none. When
  neither is non-empty the answer is 401 \<^verbatim>\<open>API key is required\<close> and the store is not
  touched.
\<close>

theorem apiKeyMiddleware_key_source:
  "(\<forall>c' d'. apiKeyMiddleware now used c d = (Next c', d') \<longrightarrow>
       (\<exists>r. c' = c\<lparr>var_apiKey := Some r\<rparr> \<and> r \<in> set (apiKeys d) \<and> k_key r \<noteq> []
          \<and> Some (k_key r) = (if truthy (header (req c) ''X-API-Key'')
                               then header (req c) ''X-API-Key''
                               else query (req c) ''api_key'')))
   \<and> (truthy (header (req c) ''X-API-Key'')
        \<and> header (req c2) ''X-API-Key'' = header (req c) ''X-API-Key'' \<longrightarrow>
      gate_result (fst (apiKeyMiddleware now used c2 d)) = gate_result (fst (apiKeyMiddleware now used c d))
      \<and> snd (apiKeyMiddleware now used c2 d) = snd (apiKeyMiddleware now used c d))
   \<and> (\<not> truthy (header (req c) ''X-API-Key'') \<and> \<not> truthy (header (req c2) ''X-API-Key'')
        \<and> query (req c2) ''api_key'' = query (req c) ''api_key'' \<longrightarrow>
      gate_result (fst (apiKeyMiddleware now used c2 d)) = gate_result (fst (apiKeyMiddleware now used c d))
      \<and> snd (apiKeyMiddleware now used c2 d) = snd (apiKeyMiddleware now used c d))
   \<and> (\<not> truthy (header (req c) ''X-API-Key'') \<and> \<not> truthy (query (req c) ''api_key'') \<longrightarrow>
      apiKeyMiddleware now used c d =
        (Respond \<lparr>status = 401, body = JObj [(''error'', JStr ''API key is required'')]\<rparr>, d))"
proof -
  have 1: "\<forall>c' d'. apiKeyMiddleware now used c d = (Next c', d') \<longrightarrow>
       (\<exists>r. c' = c\<lparr>var_apiKey := Some r\<rparr> \<and> r \<in> set (apiKeys d) \<and> k_key r \<noteq> []
          \<and> Some (k_key r) = (if truthy (header (req c) ''X-API-Key'')
                               then header (req c) ''X-API-Key''
                               else query (req c) ''api_key''))"
  proof (intro allI impI)
    fix c' d'
    assume a: "apiKeyMiddleware now used c d = (Next c', d')"
    let ?k = "js_or (header (req c) ''X-API-Key'') (query (req c) ''api_key'')"
    from a have t: "truthy ?k"
      by (auto simp: apiKeyMiddleware_def apiKeyMiddleware_try_def Let_def
          split: prod.splits sum.splits if_splits)
    then obtain k where k: "?k = Some k" "k \<noteq> []"
      by (auto simp: truthy_def split: option.splits)
    from a t k obtain r rest where
      r: "filter (\<lambda>x. k_key x = k \<and> k_isActive x = True) (apiKeys d) = r # rest"
        "c' = c\<lparr>var_apiKey := Some r\<rparr>"
      by (auto simp: apiKeyMiddleware_def apiKeyMiddleware_try_def Let_def
          store_call_select_apiKeys
          split: prod.splits sum.splits if_splits list.splits)
    from filter_Cons_first [OF r(1)] have "r \<in> set (apiKeys d)" "k_key r = k" by simp_all
    with k r(2) show "\<exists>r. c' = c\<lparr>var_apiKey := Some r\<rparr> \<and> r \<in> set (apiKeys d) \<and> k_key r \<noteq> []
          \<and> Some (k_key r) = (if truthy (header (req c) ''X-API-Key'')
                               then header (req c) ''X-API-Key''
                               else query (req c) ''api_key'')"
      by (auto simp: js_or_def split: if_splits)
  qed
  have same: "gate_result (fst (apiKeyMiddleware now used c2 d)) = gate_result (fst (apiKeyMiddleware now used c d))
      \<and> snd (apiKeyMiddleware now used c2 d) = snd (apiKeyMiddleware now used c d)"
    if "js_or (header (req c2) ''X-API-Key'') (query (req c2) ''api_key'')
        = js_or (header (req c) ''X-API-Key'') (query (req c) ''api_key'')"
    using that
    by (auto simp: apiKeyMiddleware_def apiKeyMiddleware_try_def gate_result_def Let_def
        split: prod.splits sum.splits list.splits option.splits)
  have 2: "truthy (header (req c) ''X-API-Key'')
        \<and> header (req c2) ''X-API-Key'' = header (req c) ''X-API-Key'' \<longrightarrow>
      gate_result (fst (apiKeyMiddleware now used c2 d)) = gate_result (fst (apiKeyMiddleware now used c d))
      \<and> snd (apiKeyMiddleware now used c2 d) = snd (apiKeyMiddleware now used c d)"
    using same by (simp add: js_or_def)
  have 3: "\<not> truthy (header (req c) ''X-API-Key'') \<and> \<not> truthy (header (req c2) ''X-API-Key'')
        \<and> query (req c2) ''api_key'' = query (req c) ''api_key'' \<longrightarrow>
      gate_result (fst (apiKeyMiddleware now used c2 d)) = gate_result (fst (apiKeyMiddleware now used c d))
      \<and> snd (apiKeyMiddleware now used c2 d) = snd (apiKeyMiddleware now used c d)"
    using same by (simp add: js_or_def)
  have 4: "\<not> truthy (header (req c) ''X-API-Key'') \<and> \<not> truthy (query (req c) ''api_key'') \<longrightarrow>
      apiKeyMiddleware now used c d =
        (Respond \<lparr>status = 401, body = JObj [(''error'', JStr ''API key is required'')]\<rparr>, d)"
    by (simp add: apiKeyMiddleware_def apiKeyMiddleware_try_def js_or_def c_json_def error_obj_def)
  show ?thesis
    by (intro conjI) (fact 1 2 3 4)+
qed

text \<open>
  Header \<^verbatim>\<open>zk_a\<close> and query \<^verbatim>\<open>zk_b\<close>, both stored: the header's row is set. Query
  alone: its row is set. Neither: 401, and the failure scheduled for the store is unused.
\<close>

theorem apiKeyMiddleware_key_source_witness:
  "gate_result (fst (apiKeyMiddleware 5 6 (example_request None (Some ''zk_a'') (Some ''zk_b''))
       \<lparr>users = [], apiKeys = [example_key\<lparr>k_id := ''k2'', k_key := ''zk_b''\<rparr>, example_key],
        faults = []\<rparr>))
     = Inr (Some example_key)
   \<and> gate_result (fst (apiKeyMiddleware 5 6 (example_request None None (Some ''zk_b''))
       \<lparr>users = [], apiKeys = [example_key\<lparr>k_id := ''k2'', k_key := ''zk_b''\<rparr>, example_key],
        faults = []\<rparr>))
     = Inr (Some (example_key\<lparr>k_id := ''k2'', k_key := ''zk_b''\<rparr>))
   \<and> apiKeyMiddleware 5 6 (example_request None None None)
       \<lparr>users = [], apiKeys = [example_key], faults = [True]\<rparr>
     = (Respond \<lparr>status = 401, body = JObj [(''error'', JStr ''API key is required'')]\<rparr>,
        \<lparr>users = [], apiKeys = [example_key], faults = [True]\<rparr>)"
proof -
  let ?kb = "example_key\<lparr>k_id := ''k2'', k_key := ''zk_b''\<rparr>"
  let ?d = "\<lparr>users = [], apiKeys = [?kb, example_key], faults = []\<rparr>"
  let ?dfail = "\<lparr>users = [], apiKeys = [example_key], faults = [True]\<rparr>"
  let ?ch = "example_request None (Some ''zk_a'') None"
  let ?cb = "example_request None (Some ''zk_a'') (Some ''zk_b'')"
  let ?cq = "example_request None None (Some ''zk_b'')"
  let ?cnone = "example_request None None None"
  have h: "truthy (header (req ?ch) ''X-API-Key'')
           \<and> header (req ?cb) ''X-API-Key'' = header (req ?ch) ''X-API-Key''"
    by (simp add: example_request_def truthy_def)
  have run: "gate_result (fst (apiKeyMiddleware 5 6 ?ch ?d)) = Inr (Some example_key)"
    by (simp add: apiKeyMiddleware_def apiKeyMiddleware_try_def js_or_def truthy_def
        example_request_def example_key_def store_call_def select_apiKeys_def update_apiKeys_def
        gate_result_def)
  have 1: "gate_result (fst (apiKeyMiddleware 5 6 ?cb ?d)) = Inr (Some example_key)"
    using apiKeyMiddleware_key_source [of 5 6 ?ch ?d ?cb] h run by simp
  have runq: "apiKeyMiddleware 5 6 ?cq ?d
      = (Next (?cq\<lparr>var_apiKey := Some ?kb\<rparr>),
         \<lparr>users = [], apiKeys = [?kb\<lparr>k_lastUsedAt := Some 6\<rparr>, example_key], faults = []\<rparr>)"
    by (simp add: apiKeyMiddleware_def apiKeyMiddleware_try_def js_or_def truthy_def
        example_request_def example_key_def store_call_def select_apiKeys_def update_apiKeys_def)
  have "\<exists>r. ?cq\<lparr>var_apiKey := Some ?kb\<rparr> = ?cq\<lparr>var_apiKey := Some r\<rparr> \<and> r \<in> set (apiKeys ?d)
           \<and> k_key r \<noteq> []
           \<and> Some (k_key r) = (if truthy (header (req ?cq) ''X-API-Key'')
                                then header (req ?cq) ''X-API-Key''
                                else query (req ?cq) ''api_key'')"
    using apiKeyMiddleware_key_source [of 5 6 ?cq ?d] runq by blast
  then have 2: "gate_result (fst (apiKeyMiddleware 5 6 ?cq ?d)) = Inr (Some ?kb)"
    using runq by (simp add: gate_result_def)
  have n: "\<not> truthy (header (req ?cnone) ''X-API-Key'') \<and> \<not> truthy (query (req ?cnone) ''api_key'')"
    by (simp add: example_request_def truthy_def)
  have 3: "apiKeyMiddleware 5 6 ?cnone ?dfail
     = (Respond \<lparr>status = 401, body = JObj [(''error'', JStr ''API key is required'')]\<rparr>, ?dfail)"
    using apiKeyMiddleware_key_source [of 5 6 ?cnone ?dfail] n by blast
  from 1 2 3 show ?thesis by simp
qed

text \<open>
  C6 as stated fails when the header is supplied with an empty value: the header does not
  take precedence, the query parameter's key is looked up and accepted. Without the query
  parameter the same request is answered 401 \<^verbatim>\<open>API key is required\<close>.
\<close>

theorem apiKeyMiddleware_empty_header_counterexample:
  "header (req (example_request None (Some []) (Some ''zk_a''))) ''X-API-Key'' = Some []
   \<and> query (req (example_request None (Some []) (Some ''zk_a''))) ''api_key'' = Some ''zk_a''
   \<and> fst (apiKeyMiddleware 5 6 (example_request None (Some []) (Some ''zk_a''))
          \<lparr>users = [], apiKeys = [example_key], faults = []\<rparr>)
     = Next ((example_request None (Some []) (Some ''zk_a''))\<lparr>var_apiKey := Some example_key\<rparr>)
   \<and> k_key example_key = ''zk_a''
   \<and> fst (apiKeyMiddleware 5 6 (example_request None (Some []) None)
          \<lparr>users = [], apiKeys = [example_key], faults = []\<rparr>)
     = Respond \<lparr>status = 401, body = JObj [(''error'', JStr ''API key is required'')]\<rparr>"
  by (simp add: apiKeyMiddleware_def apiKeyMiddleware_try_def js_or_def truthy_def
      example_request_def example_key_def store_call_def select_apiKeys_def update_apiKeys_def
      c_json_def error_obj_def)

section \<open>API key generation and regeneration\<close>

lemma hex_digit_inj:
  assumes "m < 16" "n < 16" "hex_digit m = hex_digit n"
  shows "m = n"
proof -
  have d: "distinct ''0123456789abcdef''" by simp
  have l: "length ''0123456789abcdef'' = 16" by simp
  from assms show ?thesis
    unfolding hex_digit_def using nth_eq_iff_index_eq [OF d, of m n] l by simp
qed

lemma hex_digit_in: "n < 16 \<Longrightarrow> hex_digit n \<in> set ''0123456789abcdef''"
  unfolding hex_digit_def by (rule nth_mem) simp

lemma unat_byte_lt: "unat (b :: 8 word) < 256"
  using unsigned_less [of b, where ?'a = nat] by simp

lemma hex_byte_inj:
  assumes "hex_byte a = hex_byte b"
  shows "a = b"
proof -
  have la: "unat a div 16 < 16" "unat a mod 16 < 16" using unat_byte_lt [of a] by auto
  have lb: "unat b div 16 < 16" "unat b mod 16 < 16" using unat_byte_lt [of b] by auto
  from assms have "hex_digit (unat a div 16) = hex_digit (unat b div 16)"
    and "hex_digit (unat a mod 16) = hex_digit (unat b mod 16)"
    by (simp_all add: hex_byte_def)
  then have "unat a div 16 = unat b div 16" "unat a mod 16 = unat b mod 16"
    using la lb by (auto intro: hex_digit_inj)
  then have "unat a = unat b"
    by (metis div_mult_mod_eq)
  then show ?thesis by (simp add: word_unat_eq_iff)
qed

lemma toString_hex_length: "length (toString_hex bs) = 2 * length bs"
  by (induction bs) (simp_all add: toString_hex_def hex_byte_def)

lemma toString_hex_chars: "set (toString_hex bs) \<subseteq> set ''0123456789abcdef''"
proof (induction bs)
  case Nil
  then show ?case by (simp add: toString_hex_def)
next
  case (Cons b bs)
  have "unat b div 16 < 16" "unat b mod 16 < 16" using unat_byte_lt [of b] by auto
  then have "set (hex_byte b) \<subseteq> set ''0123456789abcdef''"
    using hex_digit_in unfolding hex_byte_def by auto
  with Cons show ?case by (simp add: toString_hex_def)
qed

lemma toString_hex_inj: "toString_hex xs = toString_hex ys \<Longrightarrow> xs = ys"
proof (induction xs arbitrary: ys)
  case Nil
  then show ?case by (cases ys) (simp_all add: toString_hex_def hex_byte_def)
next
  case (Cons x xs)
  then obtain y ys' where ys: "ys = y # ys'"
    by (cases ys) (simp_all add: toString_hex_def hex_byte_def)
  with Cons.prems have "hex_byte x @ toString_hex xs = hex_byte y @ toString_hex ys'"
    by (simp add: toString_hex_def)
  then have "hex_byte x = hex_byte y" "toString_hex xs = toString_hex ys'"
    by (simp_all add: hex_byte_def)
  with Cons.IH ys show ?case by (simp add: hex_byte_inj)
qed

lemma randomBytes_length: "length (randomBytes n g) = n"
  by (simp add: randomBytes_def)

lemma randomBytes_eq_iff:
  "randomBytes n g = randomBytes n g' \<longleftrightarrow> (\<forall>i<n. g i = g' i)"
  by (auto simp: randomBytes_def)

lemma randomBytes_range: "range (randomBytes n) = {bs. length bs = n}"
proof
  show "range (randomBytes n) \<subseteq> {bs. length bs = n}"
    by (auto simp: randomBytes_length)
next
  show "{bs. length bs = n} \<subseteq> range (randomBytes n)"
  proof
    fix bs :: "8 word list"
    assume "bs \<in> {bs. length bs = n}"
    then have "randomBytes n (\<lambda>i. bs ! i) = bs"
      by (auto simp: randomBytes_def map_nth)
    then show "bs \<in> range (randomBytes n)"
      by (metis rangeI)
  qed
qed

lemma generateApiKey_inj:
  "generateApiKey g = generateApiKey g' \<longleftrightarrow> randomBytes 32 g = randomBytes 32 g'"
  by (auto simp: generateApiKey_def dest: toString_hex_inj)

lemma generateApiKey_length: "length (generateApiKey g) = 67"
  by (simp add: generateApiKey_def toString_hex_length randomBytes_length)

lemma card_buffers: "card {bs :: 8 word list. length bs = 32} = 2 ^ 256"
proof -
  have "card {bs :: 8 word list. set bs \<subseteq> UNIV \<and> length bs = 32} = card (UNIV :: 8 word set) ^ 32"
    by (rule card_lists_length_eq) simp
  moreover have "card (UNIV :: 8 word set) = 2 ^ 8"
    by (simp add: card_word)
  moreover have "((2::nat) ^ 8) ^ 32 = 2 ^ 256"
    by (simp add: power_mult [symmetric])
  ultimately show ?thesis by simp
qed

lemma generateApiKey_range_card: "card (range generateApiKey) = 2 ^ 256"
proof -
  have "range generateApiKey = (\<lambda>bs. ''zk_'' @ toString_hex bs) ` range (randomBytes 32)"
    by (auto simp: generateApiKey_def image_iff)
  moreover have "inj_on (\<lambda>bs. ''zk_'' @ toString_hex bs) (range (randomBytes 32))"
    by (rule inj_onI) (simp add: toString_hex_inj)
  ultimately have "card (range generateApiKey) = card (range (randomBytes 32))"
    by (simp add: card_image)
  then show ?thesis by (simp add: randomBytes_range card_buffers)
qed

lemma regenerate_keys:
  assumes "regenerate g now c d = (r, d')"
  shows "\<forall>k \<in> set (apiKeys d'). k \<in> set (apiKeys d) \<or> k_key k = generateApiKey g"
  using assms
  by (auto simp: regenerate_def regenerate_try_def store_call_def update_apiKeys_def Let_def
      split: prod.splits sum.splits list.splits if_splits)

lemma create_keys:
  assumes "create g createApiKeySchema parseDate newId now c d = (r, d')"
  shows "\<forall>k \<in> set (apiKeys d'). k \<in> set (apiKeys d) \<or> k_key k = generateApiKey g"
  using assms
  by (auto simp: create_def create_try_def zValidator_def store_call_def insert_apiKeys_def Let_def
      split: prod.splits sum.splits list.splits if_splits option.splits)

lemma create_success:
  assumes "create g createApiKeySchema parseDate newId now c d = (r, d')" "status r < 400"
  shows "\<exists>k. apiKeys d' = apiKeys d @ [k] \<and> k_key k = generateApiKey g
           \<and> r = \<lparr>status = 201, body = JObj [(''data'', JObj (ApiKey_props k))]\<rparr>"
  using assms
  by (auto simp: create_def create_try_def zValidator_def store_call_def insert_apiKeys_def Let_def
      c_json_def split: prod.splits sum.splits list.splits if_splits option.splits)

text \<open>
  C8. \<^verbatim>\<open>generateApiKey\<close> is the fixed prefix \<^verbatim>\<open>zk_\<close> followed by the hexadecimal
  encoding of the 32 bytes that \<^verbatim>\<open>randomBytes(32)\<close> draws from the cryptographic
  generator: 64 lower-case hexadecimal digits, 67 characters in every call. The drawn
  bytes are its only input and none of their 256 bits is lost: two calls give the same
  key exactly when the 32 bytes drawn are the same, every 32-byte buffer can be drawn,
  and so the generator has \<open>2 ^ 256\<close> possible keys, at least \<open>2 ^ 128\<close>. Nothing
  supplied by a user or predictable enters: whatever the request, its body, the schema,
  the clock, the generated id and the store, every row that the create and regenerate
  handlers write carries \<open>generateApiKey g\<close>, a function of the generator alone. (That the generator's bytes are unpredictable is the contract
  of Node's \<^verbatim>\<open>crypto.randomBytes\<close>.)
\<close>

theorem generateApiKey_form:
  "generateApiKey g = ''zk_'' @ toString_hex (randomBytes 32 g)
   \<and> length (randomBytes 32 g) = 32
   \<and> length (toString_hex (randomBytes 32 g)) = 64
   \<and> length (generateApiKey g) = 67
   \<and> set (toString_hex (randomBytes 32 g)) \<subseteq> set ''0123456789abcdef''
   \<and> (generateApiKey g = generateApiKey g' \<longleftrightarrow> (\<forall>i<32. g i = g' i))
   \<and> range (randomBytes 32) = {bs. length bs = 32}
   \<and> card (range generateApiKey) = 2 ^ 256
   \<and> 2 ^ 128 \<le> card (range generateApiKey)
   \<and> (\<forall>r d'. regenerate g now c d = (r, d') \<longrightarrow>
         (\<forall>k \<in> set (apiKeys d'). k \<in> set (apiKeys d) \<or> k_key k = generateApiKey g))
   \<and> (\<forall>r d'. create g createApiKeySchema parseDate newId now c d = (r, d') \<longrightarrow>
         (\<forall>k \<in> set (apiKeys d'). k \<in> set (apiKeys d) \<or> k_key k = generateApiKey g))
   \<and> (\<forall>r d'. create g createApiKeySchema parseDate newId now c d = (r, d') \<and> status r < 400 \<longrightarrow>
         (\<exists>k. apiKeys d' = apiKeys d @ [k] \<and> k_key k = generateApiKey g
            \<and> r = \<lparr>status = 201, body = JObj [(''data'', JObj (ApiKey_props k))]\<rparr>))"
proof -
  have 1: "generateApiKey g = ''zk_'' @ toString_hex (randomBytes 32 g)"
    by (simp add: generateApiKey_def)
  have 2: "length (randomBytes 32 g) = 32" by (simp add: randomBytes_length)
  have 3: "length (toString_hex (randomBytes 32 g)) = 64"
    by (simp add: toString_hex_length randomBytes_length)
  have 4: "length (generateApiKey g) = 67" by (rule generateApiKey_length)
  have 5: "set (toString_hex (randomBytes 32 g)) \<subseteq> set ''0123456789abcdef''"
    by (rule toString_hex_chars)
  have 6: "generateApiKey g = generateApiKey g' \<longleftrightarrow> (\<forall>i<32. g i = g' i)"
    by (simp add: generateApiKey_inj randomBytes_eq_iff)
  have 7: "range (randomBytes 32) = {bs. length bs = 32}" by (rule randomBytes_range)
  have 8: "card (range generateApiKey) = 2 ^ 256" by (rule generateApiKey_range_card)
  have 9: "2 ^ 128 \<le> card (range generateApiKey)" by (simp add: generateApiKey_range_card)
  have 10: "\<forall>r d'. regenerate g now c d = (r, d') \<longrightarrow>
         (\<forall>k \<in> set (apiKeys d'). k \<in> set (apiKeys d) \<or> k_key k = generateApiKey g)"
    using regenerate_keys by blast
  have 11: "\<forall>r d'. create g createApiKeySchema parseDate newId now c d = (r, d') \<longrightarrow>
         (\<forall>k \<in> set (apiKeys d'). k \<in> set (apiKeys d) \<or> k_key k = generateApiKey g)"
    using create_keys by blast
  have 12: "\<forall>r d'. create g createApiKeySchema parseDate newId now c d = (r, d') \<and> status r < 400 \<longrightarrow>
         (\<exists>k. apiKeys d' = apiKeys d @ [k] \<and> k_key k = generateApiKey g
            \<and> r = \<lparr>status = 201, body = JObj [(''data'', JObj (ApiKey_props k))]\<rparr>)"
    using create_success by blast
  show ?thesis
    by (intro conjI) (fact 1 2 3 4 5 6 7 8 9 10 11 12)+
qed

text \<open>
  The generator hands out bytes \<^verbatim>\<open>0xab\<close>; changing the last of the 32 changes the key.
  A staff member posts a body that names a key of its own: the row created carries the
  generated key.
\<close>

theorem generateApiKey_form_witness:
  "generateApiKey (\<lambda>i. 0xAB) = ''zk_'' @ concat (replicate 32 ''ab'')
   \<and> generateApiKey (\<lambda>i. if i = 31 then 0 else 0xAB) \<noteq> generateApiKey (\<lambda>i. 0xAB)
   \<and> get_prop (JObj [(''name'', JStr ''storefront''), (''key'', JStr ''chosen'')]) ''key''
       = Some (JStr ''chosen'')
   \<and> map k_key (apiKeys (snd (create (\<lambda>i. 0xAB) example_createSchema (\<lambda>s. 0) ''k9'' 0
        ((example_post (JObj [(''name'', JStr ''storefront''), (''key'', JStr ''chosen'')]))
           \<lparr>var_user := Some \<lparr>au_id = ''u2'', au_email = ''s@x.com'', au_role = ''staff''\<rparr>\<rparr>)
        \<lparr>users = [], apiKeys = [], faults = []\<rparr>)))
       = [generateApiKey (\<lambda>i. 0xAB)]"
proof -
  let ?g = "(\<lambda>i. 0xAB) :: csprng"
  let ?g' = "(\<lambda>i. if i = 31 then 0 else 0xAB) :: csprng"
  let ?b = "JObj [(''name'', JStr ''storefront''), (''key'', JStr ''chosen'')]"
  let ?c = "(example_post ?b)
           \<lparr>var_user := Some \<lparr>au_id = ''u2'', au_email = ''s@x.com'', au_role = ''staff''\<rparr>\<rparr>"
  let ?e = "\<lparr>users = [], apiKeys = [], faults = []\<rparr>"
  let ?run = "create ?g example_createSchema (\<lambda>s. 0) ''k9'' 0 ?c ?e"
  note T = generateApiKey_form [where g = ?g and g' = ?g' and createApiKeySchema = example_createSchema
      and parseDate = "\<lambda>s. 0" and newId = "''k9''" and now = 0 and c = ?c and d = ?e]
  have h: "hex_byte 0xAB = ''ab''" by (simp add: hex_byte_def hex_digit_def)
  have "toString_hex (randomBytes 32 ?g) = concat (replicate 32 ''ab'')"
    by (simp add: toString_hex_def randomBytes_def map_replicate_const h)
  with T have 1: "generateApiKey ?g = ''zk_'' @ concat (replicate 32 ''ab'')" by simp
  have "\<not> (\<forall>i<32. ?g i = ?g' i)" by (auto intro: exI [of _ 31])
  with T have 2: "generateApiKey ?g' \<noteq> generateApiKey ?g" by metis
  have 3: "get_prop ?b ''key'' = Some (JStr ''chosen'')" by (simp add: get_prop_def)
  have s: "status (fst ?run) = 201"
    by (simp add: create_def create_try_def zValidator_def example_createSchema_def
        example_post_def get_prop_def store_call_def insert_apiKeys_def truthy_def c_json_def
        Let_def)
  then have "?run = (fst ?run, snd ?run) \<and> status (fst ?run) < 400" by simp
  with T have "\<exists>k. apiKeys (snd ?run) = apiKeys ?e @ [k] \<and> k_key k = generateApiKey ?g"
    by blast
  then have 4: "map k_key (apiKeys (snd ?run)) = [generateApiKey ?g]" by auto
  from 1 2 3 4 show ?thesis by blast
qed

text \<open>
  C7. Let the store answer, ids be unique (the primary key) and \<open>r\<close> be the stored row
  with the id of the route. \<^verbatim>\<open>POST /:id/regenerate\<close> answers 200 with the updated row;
  in the table that row has the newly generated key and \<^verbatim>\<open>updatedAt = now\<close>, and its
  \<^verbatim>\<open>id\<close>, \<^verbatim>\<open>name\<close>, \<^verbatim>\<open>description\<close>, \<^verbatim>\<open>createdBy\<close>, \<^verbatim>\<open>isActive\<close>, \<^verbatim>\<open>lastUsedAt\<close>,
  \<^verbatim>\<open>expiresAt\<close> and \<^verbatim>\<open>createdAt\<close> are as before; every other row and the users table
  are untouched. The old value no longer authenticates: when key values are unique, the
  old value is a generated one (\<open>generateApiKey g0\<close>) and the 32 bytes now drawn differ
  from the 32 drawn then, a request that presents the old key is answered 401
  \<^verbatim>\<open>Invalid API key\<close> by \<^verbatim>\<open>apiKeyMiddleware\<close> on the new store.
\<close>

theorem regenerate_replaces_key:
  assumes reach: "True \<notin> set (faults d)"
    and pk: "distinct (map k_id (apiKeys d))"
    and row: "r \<in> set (apiKeys d)" "k_id r = param (req c) ''id''"
  shows "\<exists>r' d'.
      regenerate g now c d =
        (\<lparr>status = 200, body = JObj [(''data'', JObj (ApiKey_props r'))]\<rparr>, d')
    \<and> r' = r\<lparr>k_key := generateApiKey g, k_updatedAt := now\<rparr>
    \<and> apiKeys d' = map (\<lambda>x. if x = r then r' else x) (apiKeys d)
    \<and> users d' = users d
    \<and> k_key r' = generateApiKey g \<and> k_updatedAt r' = now
    \<and> k_id r' = k_id r \<and> k_name r' = k_name r \<and> k_description r' = k_description r
    \<and> k_createdBy r' = k_createdBy r \<and> k_isActive r' = k_isActive r
    \<and> k_lastUsedAt r' = k_lastUsedAt r \<and> k_expiresAt r' = k_expiresAt r
    \<and> k_createdAt r' = k_createdAt r
    \<and> (distinct (map k_key (apiKeys d))
         \<and> k_key r = generateApiKey g0 \<and> randomBytes 32 g \<noteq> randomBytes 32 g0
         \<and> js_or (header (req c2) ''X-API-Key'') (query (req c2) ''api_key'') = Some (k_key r) \<longrightarrow>
        fst (apiKeyMiddleware t1 t2 c2 d') =
          Respond \<lparr>status = 401, body = JObj [(''error'', JStr ''Invalid API key'')]\<rparr>)"
proof -
  let ?r' = "r\<lparr>k_key := generateApiKey g, k_updatedAt := now\<rparr>"
  let ?upd = "\<lambda>k. if k_id k = param (req c) ''id''
                  then k\<lparr>k_key := generateApiKey g, k_updatedAt := now\<rparr> else k"
  let ?d' = "d\<lparr>faults := tl (faults d), apiKeys := map ?upd (apiKeys d)\<rparr>"
  have f: "filter (\<lambda>k. k_id k = param (req c) ''id'') (apiKeys d) = [r]"
    using filter_distinct_map [OF pk row(1)] row(2) by simp
  have run: "regenerate g now c d =
        (\<lparr>status = 200, body = JObj [(''data'', JObj (ApiKey_props ?r'))]\<rparr>, ?d')"
    using reach
    by (simp add: regenerate_def regenerate_try_def store_call_ok update_apiKeys_def f c_json_def)
  have m: "map ?upd (apiKeys d) = map (\<lambda>x. if x = r then ?r' else x) (apiKeys d)"
  proof (rule map_cong [OF refl])
    fix x assume "x \<in> set (apiKeys d)"
    then have "k_id x = param (req c) ''id'' \<longleftrightarrow> x = r"
      using distinct_map_eq [OF pk _ row(1)] row(2) by auto
    then show "?upd x = (if x = r then ?r' else x)" by auto
  qed
  have inv: "fst (apiKeyMiddleware t1 t2 c2 ?d') =
          Respond \<lparr>status = 401, body = JObj [(''error'', JStr ''Invalid API key'')]\<rparr>"
    if uk: "distinct (map k_key (apiKeys d))" and old: "k_key r = generateApiKey g0"
      and drawn: "randomBytes 32 g \<noteq> randomBytes 32 g0"
      and pres: "js_or (header (req c2) ''X-API-Key'') (query (req c2) ''api_key'') = Some (k_key r)"
  proof -
    have fresh: "generateApiKey g \<noteq> k_key r"
      using old drawn by (simp add: generateApiKey_inj)
    have ne: "k_key r \<noteq> []"
      using old by (simp add: generateApiKey_def)
    have reach': "True \<notin> set (faults ?d')"
      using reach by (cases "faults d") auto
    have "k_key y \<noteq> k_key r" if "y \<in> set (apiKeys ?d')" for y
    proof -
      from that obtain x where x: "x \<in> set (apiKeys d)" "y = (if x = r then ?r' else x)"
        using m by auto
      show ?thesis
      proof (cases "x = r")
        case True
        with x fresh show ?thesis by simp
      next
        case False
        with x distinct_map_eq [OF uk x(1) row(1)] show ?thesis by auto
      qed
    qed
    then have "filter (\<lambda>x. k_key x = k_key r \<and> k_isActive x) (apiKeys ?d') = []"
      unfolding filter_empty_conv by blast
    with apiKey_run [OF pres ne reach', of t1 t2] show ?thesis by simp
  qed
  show ?thesis
    apply (rule exI [of _ ?r'])
    apply (rule exI [of _ ?d'])
    apply (intro conjI)
                  apply (rule run)
                 apply (simp_all add: m)
    using inv [unfolded m] apply blast
    done
qed

text \<open>
  The key \<^verbatim>\<open>k1\<close> was generated from 32 bytes \<^verbatim>\<open>0x01\<close>; it is regenerated from 32
  bytes \<^verbatim>\<open>0xab\<close>, then the old value is presented.
\<close>

theorem regenerate_replaces_key_witness:
  "fst (regenerate (\<lambda>i. 0xAB) 2000 (example_request None None None)
          \<lparr>users = [], apiKeys = [example_key\<lparr>k_key := generateApiKey (\<lambda>i. 0x01)\<rparr>], faults = []\<rparr>)
     = \<lparr>status = 200,
        body = JObj [(''data'', JObj (ApiKey_props
                 (example_key\<lparr>k_key := generateApiKey (\<lambda>i. 0xAB), k_updatedAt := 2000\<rparr>)))]\<rparr>
   \<and> apiKeys (snd (regenerate (\<lambda>i. 0xAB) 2000 (example_request None None None)
          \<lparr>users = [], apiKeys = [example_key\<lparr>k_key := generateApiKey (\<lambda>i. 0x01)\<rparr>], faults = []\<rparr>))
     = [example_key\<lparr>k_key := generateApiKey (\<lambda>i. 0xAB), k_updatedAt := 2000\<rparr>]
   \<and> fst (apiKeyMiddleware 5 6 (example_request None (Some (generateApiKey (\<lambda>i. 0x01))) None)
          (snd (regenerate (\<lambda>i. 0xAB) 2000 (example_request None None None)
             \<lparr>users = [], apiKeys = [example_key\<lparr>k_key := generateApiKey (\<lambda>i. 0x01)\<rparr>],
              faults = []\<rparr>)))
     = Respond \<lparr>status = 401, body = JObj [(''error'', JStr ''Invalid API key'')]\<rparr>"
proof -
  let ?g = "(\<lambda>i. 0xAB) :: csprng"
  let ?gold = "(\<lambda>i. 0x01) :: csprng"
  let ?row = "example_key\<lparr>k_key := generateApiKey ?gold\<rparr>"
  let ?d = "\<lparr>users = [], apiKeys = [?row], faults = []\<rparr>"
  let ?c = "example_request None None None"
  let ?old = "example_request None (Some (generateApiKey ?gold)) None"
  have reach: "True \<notin> set (faults ?d)" by simp
  have pk: "distinct (map k_id (apiKeys ?d))" by simp
  have row: "?row \<in> set (apiKeys ?d)" "k_id ?row = param (req ?c) ''id''"
    by (simp_all add: example_key_def example_request_def)
  have ne: "generateApiKey ?gold \<noteq> []" by (simp add: generateApiKey_def)
  have pres: "distinct (map k_key (apiKeys ?d))
      \<and> k_key ?row = generateApiKey ?gold \<and> randomBytes 32 ?g \<noteq> randomBytes 32 ?gold
      \<and> js_or (header (req ?old) ''X-API-Key'') (query (req ?old) ''api_key'')
          = Some (k_key ?row)"
  proof -
    have "(0::nat) < 32 \<and> ?g 0 \<noteq> ?gold 0" by simp
    then have "randomBytes 32 ?g \<noteq> randomBytes 32 ?gold"
      unfolding randomBytes_eq_iff by blast
    with ne show ?thesis
      by (simp add: example_request_def js_or_def truthy_def)
  qed
  from regenerate_replaces_key [OF reach pk row, of ?g 2000 ?gold ?old 5 6] pres
  obtain r' d' where
    run: "regenerate ?g 2000 ?c ?d
            = (\<lparr>status = 200, body = JObj [(''data'', JObj (ApiKey_props r'))]\<rparr>, d')"
    and r': "r' = ?row\<lparr>k_key := generateApiKey ?g, k_updatedAt := 2000\<rparr>"
    and tbl: "apiKeys d' = map (\<lambda>x. if x = ?row then r' else x) (apiKeys ?d)"
    and old: "fst (apiKeyMiddleware 5 6 ?old d') =
          Respond \<lparr>status = 401, body = JObj [(''error'', JStr ''Invalid API key'')]\<rparr>"
    by blast
  from run r' tbl old show ?thesis by simp
qed

section \<open>Auth routes\<close>

lemma json_keys_opt [simp]:
  "json_keys (json_opt_str v) = []" "json_keys (json_opt_date w) = []"
  by (simp_all add: json_opt_str_def json_opt_date_def split: option.splits)

lemma omit_password_keys: "''password'' \<notin> fst ` set (omit ''password'' fs)"
  by (auto simp: omit_def)

lemma user_object_keys:
  "''password'' \<notin> set (json_keys (JObj (omit ''password'' (User_props u))))"
  by (simp add: omit_def User_props_def)

lemma success_body:
  "(\<exists>fs. get_prop (JObj ((''message'', m) # (''user'', JObj (omit ''password'' (User_props u))) # rest))
            ''user'' = Some (JObj fs) \<and> ''password'' \<notin> fst ` set fs)
   \<and> (\<exists>fs. get_prop (JObj [(''user'', JObj (omit ''password'' (User_props u)))])
            ''user'' = Some (JObj fs) \<and> ''password'' \<notin> fst ` set fs)"
  by (simp add: get_prop_def omit_password_keys)

lemma register_success:
  assumes "register svc registerSchema newId now c d = (r, d')" "status r < 400"
  shows "\<exists>input hashedPassword u.
           registerSchema (json_body (req c)) = Inr input
         \<and> hashPassword svc (reg_password input) = Inr hashedPassword
         \<and> u = (users_defaults newId now)
                 \<lparr>u_email := reg_email input, u_password := hashedPassword,
                  u_firstName := reg_firstName input, u_lastName := reg_lastName input,
                  u_phone := reg_phone input, u_role := ''customer''\<rparr>
         \<and> users d' = users d @ [u] \<and> apiKeys d' = apiKeys d
         \<and> r = \<lparr>status = 201,
                 body = JObj [(''message'', JStr ''User registered successfully''),
                              (''user'', JObj (omit ''password'' (User_props u))),
                              (''token'', JStr (generateToken svc u))]\<rparr>"
  using assms
  apply (simp add: register_def zValidator_def c_json_def split: sum.splits prod.splits)
   apply (auto simp: register_try_def store_call_def insert_users_def select_users_def Let_def
      c_json_def split: sum.splits prod.splits if_splits list.splits)
  done

lemma register_users:
  assumes "register svc registerSchema newId now c d = (r, d')"
  shows "users d' = users d \<or> (\<exists>u. users d' = users d @ [u] \<and> u_role u = ''customer'')"
  using assms
  apply (simp add: register_def zValidator_def c_json_def split: sum.splits prod.splits)
   apply (auto simp: register_try_def store_call_def insert_users_def select_users_def Let_def
      c_json_def users_defaults_def split: sum.splits prod.splits if_splits list.splits)
  done

lemma login_success:
  assumes "login svc loginSchema now c d = (r, d')" "status r < 400"
  shows "\<exists>u. u \<in> set (users d)
         \<and> r = \<lparr>status = 200,
                 body = JObj [(''message'', JStr ''Login successful''),
                              (''user'', JObj (omit ''password'' (User_props u))),
                              (''token'', JStr (generateToken svc u))]\<rparr>"
  using assms
  apply (simp add: login_def zValidator_def c_json_def split: sum.splits prod.splits)
   apply (auto simp: login_try_def store_call_select_users Let_def take_Suc
      c_json_def dest: hd_filter split: sum.splits prod.splits if_splits list.splits)
  done

lemma me_success:
  assumes "me svc c d = (r, d')" "status r < 400"
  shows "\<exists>u. u \<in> set (users d)
         \<and> r = \<lparr>status = 200, body = JObj [(''user'', JObj (omit ''password'' (User_props u)))]\<rparr>"
proof -
  have gate: "users d1 = users d" if "authMiddleware svc c d = (out, d1)" for out d1
    using that
    by (auto simp: authMiddleware_def authMiddleware_try_def store_call_select_users Let_def
        split: sum.splits prod.splits if_splits option.splits)
  have handler: "\<exists>u. u \<in> set (users d1)
         \<and> r = \<lparr>status = 200, body = JObj [(''user'', JObj (omit ''password'' (User_props u)))]\<rparr>"
    if "me_handler c1 d1 = (r, d')" for c1 d1
    using that assms(2)
    by (auto simp: me_handler_def me_try_def store_call_select_users Let_def take_Suc c_json_def
        dest: hd_filter split: sum.splits prod.splits if_splits option.splits list.splits)
  obtain out d1 where o: "authMiddleware svc c d = (out, d1)" by (cases "authMiddleware svc c d")
  show ?thesis
  proof (cases out)
    case (Respond x)
    with o assms have "status x < 400" "authMiddleware svc c d = (Respond x, d1)"
      by (simp_all add: me_def)
    then show ?thesis
      by (auto simp: authMiddleware_def authMiddleware_try_def Let_def c_json_def
          split: sum.splits prod.splits if_splits option.splits)
  next
    case (Next c1)
    with o assms have "me_handler c1 d1 = (r, d')" by (simp add: me_def)
    from handler [OF this] gate [OF o] show ?thesis by simp
  qed
qed

lemma filter_map_password:
  "(\<And>u x. p (u\<lparr>u_password := x\<rparr>) = p u) \<Longrightarrow>
   take n (filter p (map (\<lambda>u. u\<lparr>u_password := h u\<rparr>) xs))
     = map (\<lambda>u. u\<lparr>u_password := h u\<rparr>) (take n (filter p xs))"
  by (simp add: filter_map take_map comp_def)

lemma body_without_password:
  "omit ''password'' (User_props (u\<lparr>u_password := h\<rparr>)) = omit ''password'' (User_props u)"
  "claims_of (u\<lparr>u_password := h\<rparr>) = claims_of u"
  by (simp_all add: omit_def User_props_def claims_of_def)

lemma me_password_free:
  "fst (me svc c (d\<lparr>users := map (\<lambda>u. u\<lparr>u_password := h u\<rparr>) (users d)\<rparr>)) = fst (me svc c d)"
  by (auto simp: me_def me_handler_def me_try_def authMiddleware_def authMiddleware_try_def
      store_call_select_users filter_map_password Let_def hd_map body_without_password
      split: sum.splits prod.splits option.splits)

lemma register_hash_free:
  assumes "\<And>p. isl (hp p) = isl (hashPassword svc p)"
    and "generateToken svc = issue_token sign"
  shows "fst (register (svc\<lparr>hashPassword := hp\<rparr>) registerSchema newId now c d)
           = fst (register svc registerSchema newId now c d)"
proof (cases "registerSchema (json_body (req c))")
  case (Inl a)
  then show ?thesis by (simp add: register_def zValidator_def)
next
  case (Inr input)
  have "isl (hp (reg_password input)) = isl (hashPassword svc (reg_password input))"
    by (rule assms(1))
  then show ?thesis
    using Inr assms(2)
    by (cases "hp (reg_password input)"; cases "hashPassword svc (reg_password input)")
      (auto simp: register_def zValidator_def register_try_def store_call_def select_users_def
        insert_users_def Let_def issue_token_def claims_of_def omit_def User_props_def
        users_defaults_def c_json_def
        split: sum.splits prod.splits list.splits)
qed

lemma store_call_update_users:
  "store_call (update_users s p) d =
     (if faults d \<noteq> [] \<and> hd (faults d) then (Inl StoreUnreachable, d\<lparr>faults := tl (faults d)\<rparr>)
      else (Inr (map s (filter p (users d))),
            d\<lparr>faults := tl (faults d), users := map (\<lambda>u. if p u then s u else u) (users d)\<rparr>))"
  by (cases "faults d") (auto simp: store_call_def update_users_def)

lemma login_password_free:
  assumes "\<And>u p. u \<in> set (users d) \<Longrightarrow> cmp p (h u) = comparePassword svc p (u_password u)"
    and "generateToken svc = issue_token sign"
  shows "fst (login (svc\<lparr>comparePassword := cmp\<rparr>) loginSchema now c
                (d\<lparr>users := map (\<lambda>u. u\<lparr>u_password := h u\<rparr>) (users d)\<rparr>))
           = fst (login svc loginSchema now c d)"
proof (cases "loginSchema (json_body (req c))")
  case (Inl a)
  then show ?thesis by (simp add: login_def zValidator_def)
next
  case (Inr input)
  let ?xs = "filter (\<lambda>u. u_email u = login_email input) (users d)"
  show ?thesis
  proof (cases ?xs)
    case Nil
    with Inr show ?thesis
      by (simp add: login_def zValidator_def login_try_def store_call_select_users
          filter_map_password)
  next
    case (Cons u rest)
    then have "u \<in> set (users d)" using filter_Cons_first [of _ "users d" u rest] by simp
    then have c: "cmp (login_password input) (h u)
        = comparePassword svc (login_password input) (u_password u)"
      by (rule assms(1))
    from Inr Cons c assms(2) show ?thesis
      by (simp add: login_def zValidator_def login_try_def store_call_select_users
          filter_map_password Let_def store_call_update_users
          issue_token_def body_without_password c_json_def
          split: sum.splits)
  qed
qed

text \<open>
  C9. Let tokens be issued as the specification says, from the claims of the identity
  (\<open>generateToken svc = issue_token sign\<close>). Every successful response (status below
  400) of register, login and \<^verbatim>\<open>GET /me\<close> is a 201, 200 and 200 whose body has a
  \<^verbatim>\<open>user\<close> object without a \<^verbatim>\<open>password\<close> property, and no property of the body, at any
  depth, is named \<^verbatim>\<open>password\<close>. The body is built from the created or stored row with
  its password column left out: it is the same whatever that column holds (\<open>x\<close>). The
  stored hash has no influence on a response: register answers the same when hashing
  yields other hashes (\<open>hp\<close>), \<^verbatim>\<open>/me\<close> answers the same when the password column of the
  store is rewritten (\<open>h\<close>), and so does login as long as password verification gives
  the same verdicts (\<open>cmp\<close>).
\<close>

theorem success_has_no_password:
  assumes tok: "generateToken svc = issue_token sign"
  shows
  "(\<forall>r d'. register svc registerSchema newId now c d = (r, d') \<and> status r < 400 \<longrightarrow>
       status r = 201
     \<and> (\<exists>fs. get_prop (body r) ''user'' = Some (JObj fs) \<and> ''password'' \<notin> fst ` set fs)
     \<and> ''password'' \<notin> set (json_keys (body r))
     \<and> (\<exists>u. users d' = users d @ [u]
          \<and> (\<forall>x. body r =
                JObj [(''message'', JStr ''User registered successfully''),
                      (''user'', JObj (omit ''password'' (User_props (u\<lparr>u_password := x\<rparr>)))),
                      (''token'', JStr (sign (claims_of (u\<lparr>u_password := x\<rparr>))))])))
   \<and> (\<forall>r d'. login svc loginSchema now c d = (r, d') \<and> status r < 400 \<longrightarrow>
       status r = 200
     \<and> (\<exists>fs. get_prop (body r) ''user'' = Some (JObj fs) \<and> ''password'' \<notin> fst ` set fs)
     \<and> ''password'' \<notin> set (json_keys (body r))
     \<and> (\<exists>u \<in> set (users d).
           \<forall>x. body r =
                JObj [(''message'', JStr ''Login successful''),
                      (''user'', JObj (omit ''password'' (User_props (u\<lparr>u_password := x\<rparr>)))),
                      (''token'', JStr (sign (claims_of (u\<lparr>u_password := x\<rparr>))))]))
   \<and> (\<forall>r d'. me svc c d = (r, d') \<and> status r < 400 \<longrightarrow>
       status r = 200
     \<and> (\<exists>fs. get_prop (body r) ''user'' = Some (JObj fs) \<and> ''password'' \<notin> fst ` set fs)
     \<and> ''password'' \<notin> set (json_keys (body r))
     \<and> (\<exists>u \<in> set (users d).
           \<forall>x. body r =
                JObj [(''user'', JObj (omit ''password'' (User_props (u\<lparr>u_password := x\<rparr>))))]))
   \<and> ((\<forall>p. isl (hp p) = isl (hashPassword svc p)) \<longrightarrow>
        fst (register (svc\<lparr>hashPassword := hp\<rparr>) registerSchema newId now c d)
          = fst (register svc registerSchema newId now c d))
   \<and> ((\<forall>u \<in> set (users d). \<forall>p. cmp p (h u) = comparePassword svc p (u_password u)) \<longrightarrow>
        fst (login (svc\<lparr>comparePassword := cmp\<rparr>) loginSchema now c
               (d\<lparr>users := map (\<lambda>u. u\<lparr>u_password := h u\<rparr>) (users d)\<rparr>))
          = fst (login svc loginSchema now c d))
   \<and> fst (me svc c (d\<lparr>users := map (\<lambda>u. u\<lparr>u_password := h u\<rparr>) (users d)\<rparr>)) = fst (me svc c d)"
proof -
  have t: "generateToken svc u = sign (claims_of u)" for u
    using tok by (simp add: issue_token_def)
  have 1: "\<forall>r d'. register svc registerSchema newId now c d = (r, d') \<and> status r < 400 \<longrightarrow>
       status r = 201
     \<and> (\<exists>fs. get_prop (body r) ''user'' = Some (JObj fs) \<and> ''password'' \<notin> fst ` set fs)
     \<and> ''password'' \<notin> set (json_keys (body r))
     \<and> (\<exists>u. users d' = users d @ [u]
          \<and> (\<forall>x. body r =
                JObj [(''message'', JStr ''User registered successfully''),
                      (''user'', JObj (omit ''password'' (User_props (u\<lparr>u_password := x\<rparr>)))),
                      (''token'', JStr (sign (claims_of (u\<lparr>u_password := x\<rparr>))))]))"
  proof (intro allI impI)
    fix r d'
    assume "register svc registerSchema newId now c d = (r, d') \<and> status r < 400"
    then obtain u where u: "users d' = users d @ [u]"
      "r = \<lparr>status = 201,
            body = JObj [(''message'', JStr ''User registered successfully''),
                         (''user'', JObj (omit ''password'' (User_props u))),
                         (''token'', JStr (generateToken svc u))]\<rparr>"
      using register_success [of svc registerSchema newId now c d r d'] by blast
    have "\<exists>u. users d' = users d @ [u]
          \<and> (\<forall>x. body r =
                JObj [(''message'', JStr ''User registered successfully''),
                      (''user'', JObj (omit ''password'' (User_props (u\<lparr>u_password := x\<rparr>)))),
                      (''token'', JStr (sign (claims_of (u\<lparr>u_password := x\<rparr>))))])"
      using u by (intro exI [of _ u]) (simp add: t body_without_password)
    with u(2) show "status r = 201
     \<and> (\<exists>fs. get_prop (body r) ''user'' = Some (JObj fs) \<and> ''password'' \<notin> fst ` set fs)
     \<and> ''password'' \<notin> set (json_keys (body r))
     \<and> (\<exists>u. users d' = users d @ [u]
          \<and> (\<forall>x. body r =
                JObj [(''message'', JStr ''User registered successfully''),
                      (''user'', JObj (omit ''password'' (User_props (u\<lparr>u_password := x\<rparr>)))),
                      (''token'', JStr (sign (claims_of (u\<lparr>u_password := x\<rparr>))))]))"
      using user_object_keys [of u] success_body [of _ u] by simp
  qed
  have 2: "\<forall>r d'. login svc loginSchema now c d = (r, d') \<and> status r < 400 \<longrightarrow>
       status r = 200
     \<and> (\<exists>fs. get_prop (body r) ''user'' = Some (JObj fs) \<and> ''password'' \<notin> fst ` set fs)
     \<and> ''password'' \<notin> set (json_keys (body r))
     \<and> (\<exists>u \<in> set (users d).
           \<forall>x. body r =
                JObj [(''message'', JStr ''Login successful''),
                      (''user'', JObj (omit ''password'' (User_props (u\<lparr>u_password := x\<rparr>)))),
                      (''token'', JStr (sign (claims_of (u\<lparr>u_password := x\<rparr>))))])"
  proof (intro allI impI)
    fix r d'
    assume "login svc loginSchema now c d = (r, d') \<and> status r < 400"
    then obtain u where u: "u \<in> set (users d)"
      "r = \<lparr>status = 200,
            body = JObj [(''message'', JStr ''Login successful''),
                         (''user'', JObj (omit ''password'' (User_props u))),
                         (''token'', JStr (generateToken svc u))]\<rparr>"
      using login_success [of svc loginSchema now c d r d'] by blast
    have "\<exists>u \<in> set (users d).
           \<forall>x. body r =
                JObj [(''message'', JStr ''Login successful''),
                      (''user'', JObj (omit ''password'' (User_props (u\<lparr>u_password := x\<rparr>)))),
                      (''token'', JStr (sign (claims_of (u\<lparr>u_password := x\<rparr>))))]"
      using u by (intro bexI [of _ u]) (simp_all add: t body_without_password)
    with u(2) show "status r = 200
     \<and> (\<exists>fs. get_prop (body r) ''user'' = Some (JObj fs) \<and> ''password'' \<notin> fst ` set fs)
     \<and> ''password'' \<notin> set (json_keys (body r))
     \<and> (\<exists>u \<in> set (users d).
           \<forall>x. body r =
                JObj [(''message'', JStr ''Login successful''),
                      (''user'', JObj (omit ''password'' (User_props (u\<lparr>u_password := x\<rparr>)))),
                      (''token'', JStr (sign (claims_of (u\<lparr>u_password := x\<rparr>))))])"
      using user_object_keys [of u] success_body [of _ u] by simp
  qed
  have 3: "\<forall>r d'. me svc c d = (r, d') \<and> status r < 400 \<longrightarrow>
       status r = 200
     \<and> (\<exists>fs. get_prop (body r) ''user'' = Some (JObj fs) \<and> ''password'' \<notin> fst ` set fs)
     \<and> ''password'' \<notin> set (json_keys (body r))
     \<and> (\<exists>u \<in> set (users d).
           \<forall>x. body r =
                JObj [(''user'', JObj (omit ''password'' (User_props (u\<lparr>u_password := x\<rparr>))))])"
  proof (intro allI impI)
    fix r d'
    assume "me svc c d = (r, d') \<and> status r < 400"
    then obtain u where u: "u \<in> set (users d)"
      "r = \<lparr>status = 200, body = JObj [(''user'', JObj (omit ''password'' (User_props u)))]\<rparr>"
      using me_success [of svc c d r d'] by blast
    have "\<exists>u \<in> set (users d).
           \<forall>x. body r =
                JObj [(''user'', JObj (omit ''password'' (User_props (u\<lparr>u_password := x\<rparr>))))]"
      using u by (intro bexI [of _ u]) (simp_all add: body_without_password)
    with u(2) show "status r = 200
     \<and> (\<exists>fs. get_prop (body r) ''user'' = Some (JObj fs) \<and> ''password'' \<notin> fst ` set fs)
     \<and> ''password'' \<notin> set (json_keys (body r))
     \<and> (\<exists>u \<in> set (users d).
           \<forall>x. body r =
                JObj [(''user'', JObj (omit ''password'' (User_props (u\<lparr>u_password := x\<rparr>))))])"
      using user_object_keys [of u] success_body [of _ u] by simp
  qed
  have 4: "(\<forall>p. isl (hp p) = isl (hashPassword svc p)) \<longrightarrow>
        fst (register (svc\<lparr>hashPassword := hp\<rparr>) registerSchema newId now c d)
          = fst (register svc registerSchema newId now c d)"
    using register_hash_free [of hp svc sign registerSchema newId now c d] tok by blast
  have 5: "(\<forall>u \<in> set (users d). \<forall>p. cmp p (h u) = comparePassword svc p (u_password u)) \<longrightarrow>
        fst (login (svc\<lparr>comparePassword := cmp\<rparr>) loginSchema now c
               (d\<lparr>users := map (\<lambda>u. u\<lparr>u_password := h u\<rparr>) (users d)\<rparr>))
          = fst (login svc loginSchema now c d)"
    using login_password_free [of d cmp h svc sign loginSchema now c] tok by blast
  have 6: "fst (me svc c (d\<lparr>users := map (\<lambda>u. u\<lparr>u_password := h u\<rparr>) (users d)\<rparr>)) = fst (me svc c d)"
    by (rule me_password_free)
  show ?thesis
    by (intro conjI) (fact 1 2 3 4 5 6)+
qed

text \<open>
  The end-to-end scenario: \<^verbatim>\<open>a@x.com\<close> registers with \<^verbatim>\<open>pw12345678\<close>, logs in, and asks
  for \<^verbatim>\<open>/me\<close> with the token; the stored row holds the hash, none of the three bodies a
  \<^verbatim>\<open>password\<close> property, and \<^verbatim>\<open>/me\<close> answers the same with another hash stored.
\<close>

theorem success_has_no_password_witness:
  "status (fst (register example_svc example_registerSchema ''u1'' 0 (example_post example_body)
       \<lparr>users = [], apiKeys = [], faults = []\<rparr>)) = 201
   \<and> users (snd (register example_svc example_registerSchema ''u1'' 0 (example_post example_body)
       \<lparr>users = [], apiKeys = [], faults = []\<rparr>)) = [example_user]
   \<and> u_password example_user = ''h:pw12345678''
   \<and> ''password'' \<notin> set (json_keys (body (fst
        (register example_svc example_registerSchema ''u1'' 0 (example_post example_body)
           \<lparr>users = [], apiKeys = [], faults = []\<rparr>))))
   \<and> status (fst (login example_svc example_loginSchema 7 (example_post example_body)
       \<lparr>users = [example_user], apiKeys = [], faults = []\<rparr>)) = 200
   \<and> ''password'' \<notin> set (json_keys (body (fst
        (login example_svc example_loginSchema 7 (example_post example_body)
           \<lparr>users = [example_user], apiKeys = [], faults = []\<rparr>))))
   \<and> status (fst (me example_svc (example_request (Some ''Bearer t1'') None None)
       \<lparr>users = [example_user], apiKeys = [], faults = []\<rparr>)) = 200
   \<and> ''password'' \<notin> set (json_keys (body (fst
        (me example_svc (example_request (Some ''Bearer t1'') None None)
           \<lparr>users = [example_user], apiKeys = [], faults = []\<rparr>))))
   \<and> fst (me example_svc (example_request (Some ''Bearer t1'') None None)
           \<lparr>users = [example_user\<lparr>u_password := ''h:other''\<rparr>], apiKeys = [], faults = []\<rparr>)
     = fst (me example_svc (example_request (Some ''Bearer t1'') None None)
           \<lparr>users = [example_user], apiKeys = [], faults = []\<rparr>)"
proof -
  have tok: "generateToken example_svc = issue_token (\<lambda>p. ''t1'')"
    by (simp add: example_svc_def issue_token_def fun_eq_iff)
  let ?e = "\<lparr>users = [], apiKeys = [], faults = []\<rparr>"
  let ?d = "\<lparr>users = [example_user], apiKeys = [], faults = []\<rparr>"
  let ?reg = "register example_svc example_registerSchema ''u1'' 0 (example_post example_body) ?e"
  let ?log = "login example_svc example_loginSchema 7 (example_post example_body) ?d"
  let ?me = "me example_svc (example_request (Some ''Bearer t1'') None None) ?d"
  have r1: "status (fst ?reg) = 201" and r2: "users (snd ?reg) = [example_user]"
    by (simp_all add: register_def register_try_def zValidator_def example_registerSchema_def
        example_post_def example_body_def get_prop_def example_svc_def store_call_def
        select_users_def insert_users_def users_defaults_def example_user_def c_json_def)
  have l1: "status (fst ?log) = 200"
    by (simp add: login_def login_try_def zValidator_def example_loginSchema_def
        example_post_def example_body_def get_prop_def example_svc_def store_call_def
        select_users_def update_users_def example_user_def c_json_def)
  have m1: "status (fst ?me) = 200"
    by (simp add: me_def me_handler_def me_try_def authMiddleware_def authMiddleware_try_def
        Let_def example_request_def example_svc_def store_call_def truthy_def
        select_users_def example_user_def c_json_def)
  have p: "u_password example_user = ''h:pw12345678''" by (simp add: example_user_def)
  have r3: "''password'' \<notin> set (json_keys (body (fst ?reg)))"
  proof -
    have "?reg = (fst ?reg, snd ?reg) \<and> status (fst ?reg) < 400" using r1 by simp
    with success_has_no_password [OF tok, where registerSchema = example_registerSchema
        and newId = "''u1''" and now = 0 and c = "example_post example_body" and d = ?e]
    show ?thesis by blast
  qed
  have l3: "''password'' \<notin> set (json_keys (body (fst ?log)))"
  proof -
    have "?log = (fst ?log, snd ?log) \<and> status (fst ?log) < 400" using l1 by simp
    with success_has_no_password [OF tok, where loginSchema = example_loginSchema
        and now = 7 and c = "example_post example_body" and d = ?d]
    show ?thesis by blast
  qed
  have m3: "''password'' \<notin> set (json_keys (body (fst ?me)))"
  proof -
    have "?me = (fst ?me, snd ?me) \<and> status (fst ?me) < 400" using m1 by simp
    with success_has_no_password [OF tok, where
        c = "example_request (Some ''Bearer t1'') None None" and d = ?d]
    show ?thesis by blast
  qed
  have m4: "fst (me example_svc (example_request (Some ''Bearer t1'') None None)
           \<lparr>users = [example_user\<lparr>u_password := ''h:other''\<rparr>], apiKeys = [], faults = []\<rparr>)
     = fst ?me"
    using success_has_no_password [OF tok, where
        c = "example_request (Some ''Bearer t1'') None None" and d = ?d
        and h = "\<lambda>u. ''h:other''"]
    by simp
  from r1 r2 p r3 l1 l3 m1 m3 m4 show ?thesis by blast
qed

text \<open>
  C10. Whatever the body and whatever the schema parses from it, \<^verbatim>\<open>POST /register\<close>
  either leaves the users table as it is or appends one row, and that row has role
  \<^verbatim>\<open>customer\<close>; a successful response is a 201, one row was appended, its role is
  \<^verbatim>\<open>customer\<close>, and it is the \<^verbatim>\<open>user\<close> of the body. No stored row changes its role and the
  API keys are untouched. The parsed input (\<open>RegisterInput\<close>) has no role field.
\<close>

theorem register_creates_customer:
  assumes "register svc registerSchema newId now c d = (r, d')"
  shows "(users d' = users d \<or> (\<exists>u. users d' = users d @ [u] \<and> u_role u = ''customer''))
       \<and> (status r < 400 \<longrightarrow>
            status r = 201
          \<and> (\<exists>u. users d' = users d @ [u] \<and> u_role u = ''customer''
                \<and> get_prop (body r) ''user'' = Some (JObj (omit ''password'' (User_props u)))))
       \<and> (\<forall>u \<in> set (users d'). u \<in> set (users d) \<or> u_role u = ''customer'')"
proof -
  have 1: "users d' = users d \<or> (\<exists>u. users d' = users d @ [u] \<and> u_role u = ''customer'')"
    using register_users [OF assms] .
  have 2: "status r < 400 \<longrightarrow>
            status r = 201
          \<and> (\<exists>u. users d' = users d @ [u] \<and> u_role u = ''customer''
                \<and> get_prop (body r) ''user'' = Some (JObj (omit ''password'' (User_props u))))"
  proof
    assume "status r < 400"
    from register_success [OF assms this] show "status r = 201
          \<and> (\<exists>u. users d' = users d @ [u] \<and> u_role u = ''customer''
                \<and> get_prop (body r) ''user'' = Some (JObj (omit ''password'' (User_props u))))"
      by (auto simp: get_prop_def)
  qed
  have 3: "\<forall>u \<in> set (users d'). u \<in> set (users d) \<or> u_role u = ''customer''"
    using 1 by auto
  from 1 2 3 show ?thesis by blast
qed

text \<open>
  The body asks for role \<^verbatim>\<open>admin\<close>; the row created is \<open>example_user\<close>, a customer.
\<close>

theorem register_creates_customer_witness:
  "get_prop example_body ''role'' = Some (JStr ''admin'')
   \<and> status (fst (register example_svc example_registerSchema ''u1'' 0 (example_post example_body)
       \<lparr>users = [], apiKeys = [], faults = []\<rparr>)) = 201
   \<and> users (snd (register example_svc example_registerSchema ''u1'' 0 (example_post example_body)
       \<lparr>users = [], apiKeys = [], faults = []\<rparr>)) = [example_user]
   \<and> u_role example_user = ''customer''"
proof -
  let ?e = "\<lparr>users = [], apiKeys = [], faults = []\<rparr>"
  let ?reg = "register example_svc example_registerSchema ''u1'' 0 (example_post example_body) ?e"
  have r1: "status (fst ?reg) = 201" and r2: "users (snd ?reg) = [example_user]"
    by (simp_all add: register_def register_try_def zValidator_def example_registerSchema_def
        example_post_def example_body_def get_prop_def example_svc_def store_call_def
        select_users_def insert_users_def users_defaults_def example_user_def c_json_def)
  have b: "get_prop example_body ''role'' = Some (JStr ''admin'')"
    by (simp add: example_body_def get_prop_def)
  have "?reg = (fst ?reg, snd ?reg)" by simp
  moreover have "status (fst ?reg) < 400" using r1 by simp
  ultimately have "\<exists>u. users (snd ?reg) = users ?e @ [u] \<and> u_role u = ''customer''"
    using register_creates_customer [of example_svc example_registerSchema "''u1''" 0
        "example_post example_body" ?e "fst ?reg" "snd ?reg"]
    by blast
  with r2 have "u_role example_user = ''customer''" by simp
  with b r1 r2 show ?thesis by blast
qed

end
